theory Spec2Isabelle
  imports Complex_Main "HOL-Library.List_Lexorder" "HOL-Library.Char_ord"
begin

section \<open>JavaScript numbers\<close>

text \<open>
  The budget-alert evaluator of \<^verbatim>\<open>server/routes.ts\<close> computes with JavaScript numbers:
  IEEE 754 binary64 values under round-to-nearest, ties-to-even.  A finite value is kept as
  the real number it denotes (\<open>Fin 0\<close> is \<open>+0\<close>, \<open>NegZero\<close> is \<open>-0\<close>); every arithmetic
  operation computes the exact result and rounds it once with \<open>round64\<close>.
\<close>

datatype number = NaN | PosInf | NegInf | NegZero | Fin real

fun bit_length :: "nat \<Rightarrow> nat" where
  "bit_length n = (if n = 0 then 0 else Suc (bit_length (n div 2)))"

declare bit_length.simps [simp del]

definition pow2 :: "int \<Rightarrow> real" where
  "pow2 k = (if 0 \<le> k then 2 ^ nat k else 1 / 2 ^ nat (- k))"

text \<open>For \<open>x > 0\<close>, \<open>floor_log2 x\<close> is the exponent \<open>e\<close> with \<open>2\<^sup>e \<le> x < 2\<^sup>e\<^sup>+\<^sup>1\<close>.\<close>

definition floor_log2 :: "real \<Rightarrow> int" where
  "floor_log2 x =
     (if 1 \<le> x then int (bit_length (nat \<lfloor>x\<rfloor>)) - 1
      else - int (bit_length (nat (\<lceil>1 / x\<rceil> - 1))))"

definition round_half_even :: "real \<Rightarrow> int" where
  "round_half_even y =
     (let f = \<lfloor>y\<rfloor>; d = y - of_int f
      in if d < 1 / 2 then f else if 1 / 2 < d then f + 1
         else if even f then f else f + 1)"

text \<open>
  Rounding of an exact result to binary64: 53 significant bits, least exponent \<open>-1022\<close>
  (below it the spacing stays \<open>2\<^sup>-\<^sup>1\<^sup>0\<^sup>7\<^sup>4\<close>, the subnormal range), overflow to an infinity
  from \<open>2\<^sup>1\<^sup>0\<^sup>2\<^sup>4\<close> on.  An exact zero is \<open>+0\<close>; a non-zero result that rounds to zero keeps
  its sign.
\<close>

definition round64 :: "real \<Rightarrow> number" where
  "round64 x =
     (if x = 0 then Fin 0
      else
        let e = max (floor_log2 \<bar>x\<bar>) (- 1022);
            ulp = pow2 (e - 52);
            r = of_int (round_half_even (\<bar>x\<bar> / ulp)) * ulp
        in if 2 ^ 1024 \<le> r then (if x < 0 then NegInf else PosInf)
           else if r = 0 then (if x < 0 then NegZero else Fin 0)
           else Fin (if x < 0 then - r else r))"

fun is_neg :: "number \<Rightarrow> bool" where
  "is_neg NegInf = True"
| "is_neg NegZero = True"
| "is_neg (Fin r) = (r < 0)"
| "is_neg _ = False"

fun is_inf :: "number \<Rightarrow> bool" where
  "is_inf PosInf = True"
| "is_inf NegInf = True"
| "is_inf _ = False"

fun is_zero :: "number \<Rightarrow> bool" where
  "is_zero NegZero = True"
| "is_zero (Fin r) = (r = 0)"
| "is_zero _ = False"

fun fin_val :: "number \<Rightarrow> real" where
  "fin_val (Fin r) = r"
| "fin_val _ = 0"

definition signed_inf :: "bool \<Rightarrow> number" where
  "signed_inf neg = (if neg then NegInf else PosInf)"

definition signed_zero :: "bool \<Rightarrow> number" where
  "signed_zero neg = (if neg then NegZero else Fin 0)"

fun num_neg :: "number \<Rightarrow> number" where
  "num_neg NaN = NaN"
| "num_neg PosInf = NegInf"
| "num_neg NegInf = PosInf"
| "num_neg NegZero = Fin 0"
| "num_neg (Fin r) = (if r = 0 then NegZero else Fin (- r))"

text \<open>The operator \<^verbatim>\<open>+\<close> on two numbers.\<close>

fun num_add :: "number \<Rightarrow> number \<Rightarrow> number" where
  "num_add NaN _ = NaN"
| "num_add _ NaN = NaN"
| "num_add PosInf NegInf = NaN"
| "num_add NegInf PosInf = NaN"
| "num_add PosInf _ = PosInf"
| "num_add _ PosInf = PosInf"
| "num_add NegInf _ = NegInf"
| "num_add _ NegInf = NegInf"
| "num_add NegZero y = y"
| "num_add x NegZero = x"
| "num_add (Fin a) (Fin b) = round64 (a + b)"

text \<open>The operator \<^verbatim>\<open>-\<close>: \<open>x - y\<close> is \<open>x + (-y)\<close> in IEEE 754.\<close>

definition num_sub :: "number \<Rightarrow> number \<Rightarrow> number" where
  "num_sub x y = num_add x (num_neg y)"

text \<open>The operator \<^verbatim>\<open>*\<close>.\<close>

definition num_mul :: "number \<Rightarrow> number \<Rightarrow> number" where
  "num_mul x y =
     (if x = NaN \<or> y = NaN then NaN
      else
        let neg = (is_neg x \<noteq> is_neg y)
        in if is_inf x \<or> is_inf y
           then (if is_zero x \<or> is_zero y then NaN else signed_inf neg)
           else if is_zero x \<or> is_zero y then signed_zero neg
           else round64 (fin_val x * fin_val y))"

text \<open>
  The operator \<^verbatim>\<open>/\<close>.  Division never throws: a non-zero finite value over a zero is an
  infinity, and \<open>0 / 0\<close> is \<open>NaN\<close>.
\<close>

definition num_div :: "number \<Rightarrow> number \<Rightarrow> number" where
  "num_div x y =
     (if x = NaN \<or> y = NaN then NaN
      else
        let neg = (is_neg x \<noteq> is_neg y)
        in if is_inf x then (if is_inf y then NaN else signed_inf neg)
           else if is_inf y then signed_zero neg
           else if is_zero y then (if is_zero x then NaN else signed_inf neg)
           else if is_zero x then signed_zero neg
           else round64 (fin_val x / fin_val y))"

text \<open>
  The relational operators \<^verbatim>\<open><\<close> and \<^verbatim>\<open>>=\<close>.  Any comparison with \<open>NaN\<close> is false, and
  the two zeros are equal.
\<close>

fun num_lt :: "number \<Rightarrow> number \<Rightarrow> bool" where
  "num_lt NaN _ = False"
| "num_lt _ NaN = False"
| "num_lt PosInf _ = False"
| "num_lt _ NegInf = False"
| "num_lt NegInf _ = True"
| "num_lt _ PosInf = True"
| "num_lt x y = (fin_val x < fin_val y)"

definition num_ge :: "number \<Rightarrow> number \<Rightarrow> bool" where
  "num_ge x y = (x \<noteq> NaN \<and> y \<noteq> NaN \<and> \<not> num_lt x y)"

subsection \<open>Number to text\<close>

definition digit_char :: "nat \<Rightarrow> char" where
  "digit_char d = ''0123456789'' ! d"

fun digits10 :: "nat \<Rightarrow> string" where
  "digits10 n = (if n < 10 then [digit_char n] else digits10 (n div 10) @ [digit_char (n mod 10)])"

declare digits10.simps [simp del]

text \<open>
  \<^verbatim>\<open>Number.prototype.toFixed(1)\<close>: for a finite value below \<open>10\<^sup>2\<^sup>1\<close> in magnitude, the integer
  \<open>n\<close> with \<open>n / 10\<close> nearest to the value (the larger one on a tie), written with one digit
  after the point.  From \<open>10\<^sup>2\<^sup>1\<close> on the result is that of \<^verbatim>\<open>Number::toString\<close>, which is
  the parameter \<open>numberToString\<close>.
\<close>

definition toFixed1 :: "(number \<Rightarrow> string) \<Rightarrow> number \<Rightarrow> string" where
  "toFixed1 numberToString x =
     (case x of
        NaN \<Rightarrow> ''NaN''
      | PosInf \<Rightarrow> ''Infinity''
      | NegInf \<Rightarrow> ''-Infinity''
      | NegZero \<Rightarrow> ''0.0''
      | Fin r \<Rightarrow>
          if 10 ^ 21 \<le> \<bar>r\<bar> then numberToString x
          else
            let n = nat \<lfloor>\<bar>r\<bar> * 10 + 1 / 2\<rfloor>
            in (if r < 0 then ''-'' else '''') @ digits10 (n div 10) @ ''.'' @ [digit_char (n mod 10)])"

section \<open>Dates\<close>

text \<open>
  A \<^verbatim>\<open>Date\<close> holds a time value, the number of milliseconds since 1970-01-01T00:00:00Z.
  The functions below are the abstract operations of ECMA-262 (Day, DayFromYear,
  YearFromTime, MonthFromTime, DateFromTime, MakeDay, MakeTime, MakeDate, TimeClip) under
  their names; an invalid date (\<open>NaN\<close> time value) is \<open>None\<close>.
\<close>

type_synonym time = int

definition msPerDay :: int where
  "msPerDay = 86400000"

definition Day :: "time \<Rightarrow> int" where
  "Day t = t div msPerDay"

definition TimeWithinDay :: "time \<Rightarrow> int" where
  "TimeWithinDay t = t mod msPerDay"

definition DaysInYear :: "int \<Rightarrow> int" where
  "DaysInYear y =
     (if y mod 4 \<noteq> 0 then 365 else if y mod 100 \<noteq> 0 then 366
      else if y mod 400 \<noteq> 0 then 365 else 366)"

definition DayFromYear :: "int \<Rightarrow> int" where
  "DayFromYear y =
     365 * (y - 1970) + (y - 1969) div 4 - (y - 1901) div 100 + (y - 1601) div 400"

text \<open>
  \<open>YearFromTime t\<close> is the largest \<open>y\<close> with \<open>DayFromYear y \<le> Day t\<close>: the average year of
  365.2425 days gives an estimate that is off by one at most, which the two tests repair.
\<close>

definition YearFromTime :: "time \<Rightarrow> int" where
  "YearFromTime t =
     (let d = Day t; y = 1970 + (400 * d) div 146097
      in if d < DayFromYear y then y - 1
         else if DayFromYear (y + 1) \<le> d then y + 1 else y)"

definition InLeapYear :: "time \<Rightarrow> int" where
  "InLeapYear t = (if DaysInYear (YearFromTime t) = 366 then 1 else 0)"

definition DayWithinYear :: "time \<Rightarrow> int" where
  "DayWithinYear t = Day t - DayFromYear (YearFromTime t)"

text \<open>The number of days of the year before month \<open>m\<close> (0 to 11), \<open>l\<close> being 1 in a leap year.\<close>

definition days_before_month :: "int \<Rightarrow> int \<Rightarrow> int" where
  "days_before_month l m =
     [0, 31, 59, 90, 120, 151, 181, 212, 243, 273, 304, 334] ! nat m + (if 2 \<le> m then l else 0)"

definition MonthFromTime :: "time \<Rightarrow> int" where
  "MonthFromTime t =
     (let d = DayWithinYear t; l = InLeapYear t
      in if d < 31 then 0
         else if d < 59 + l then 1
         else if d < 90 + l then 2
         else if d < 120 + l then 3
         else if d < 151 + l then 4
         else if d < 181 + l then 5
         else if d < 212 + l then 6
         else if d < 243 + l then 7
         else if d < 273 + l then 8
         else if d < 304 + l then 9
         else if d < 334 + l then 10
         else 11)"

definition DateFromTime :: "time \<Rightarrow> int" where
  "DateFromTime t =
     DayWithinYear t - days_before_month (InLeapYear t) (MonthFromTime t) + 1"

definition MakeDay :: "int \<Rightarrow> int \<Rightarrow> int \<Rightarrow> int" where
  "MakeDay year month date =
     (let ym = year + month div 12; mn = month mod 12
      in DayFromYear ym
         + days_before_month (if DaysInYear ym = 366 then 1 else 0) mn
         + date - 1)"

text \<open>The number of days of month \<open>m\<close> (0 to 11) of year \<open>y\<close>.\<close>

definition DaysInMonth :: "int \<Rightarrow> int \<Rightarrow> int" where
  "DaysInMonth y m =
     [31, if DaysInYear y = 366 then 29 else 28, 31, 30, 31, 30, 31, 31, 30, 31, 30, 31] ! nat m"

definition MakeTime :: "int \<Rightarrow> int \<Rightarrow> int \<Rightarrow> int \<Rightarrow> int" where
  "MakeTime hour minute sec ms = hour * 3600000 + minute * 60000 + sec * 1000 + ms"

definition MakeDate :: "int \<Rightarrow> int \<Rightarrow> time" where
  "MakeDate day tm = day * msPerDay + tm"

definition TimeClip :: "int \<Rightarrow> time option" where
  "TimeClip t = (if 8640000000000000 < \<bar>t\<bar> then None else Some t)"

section \<open>The environment of a request\<close>

text \<open>
  What the server code takes from outside while it serves one request:
  \<^item> \<open>now k\<close>, the time value of the \<open>k\<close>-th \<^verbatim>\<open>new Date()\<close> evaluated by the request;
  \<^item> \<open>localTZA\<close>, the offset of the server's local time zone (ECMA-262 LocalTZA);
  \<^item> \<open>fails k\<close>, whether the storage call made when \<open>k\<close> calls are on the trace throws;
  \<^item> \<open>gen_random_uuid\<close> and \<open>defaultNow\<close>, the column defaults the database fills in;
  \<^item> \<open>toLocaleString\<close> and \<open>numberToString\<close>, the number formatting of the runtime.
\<close>

type_synonym uuid = string

record env =
  now :: "nat \<Rightarrow> time"
  localTZA :: "time \<Rightarrow> bool \<Rightarrow> int"
  fails :: "nat \<Rightarrow> bool"
  gen_random_uuid :: "nat \<Rightarrow> uuid"
  defaultNow :: "nat \<Rightarrow> time"
  toLocaleString :: "number \<Rightarrow> string"
  numberToString :: "number \<Rightarrow> string"

definition LocalTime :: "env \<Rightarrow> time \<Rightarrow> int" where
  "LocalTime env t = t + localTZA env t True"

definition UTC :: "env \<Rightarrow> int \<Rightarrow> int" where
  "UTC env t = t - localTZA env t False"

text \<open>
  \<^verbatim>\<open>new Date(year, month, date, hours, minutes, seconds)\<close>, the components read in local
  time; a year from 0 to 99 means 1900 + year.
\<close>

definition newDate :: "env \<Rightarrow> int \<Rightarrow> int \<Rightarrow> int \<Rightarrow> int \<Rightarrow> int \<Rightarrow> int \<Rightarrow> time option" where
  "newDate env year month date hours minutes seconds =
     (let yr = (if 0 \<le> year \<and> year \<le> 99 then 1900 + year else year)
      in TimeClip (UTC env (MakeDate (MakeDay yr month date) (MakeTime hours minutes seconds 0))))"

definition getMonth :: "env \<Rightarrow> time \<Rightarrow> int" where
  "getMonth env t = MonthFromTime (LocalTime env t)"

definition getFullYear :: "env \<Rightarrow> time \<Rightarrow> int" where
  "getFullYear env t = YearFromTime (LocalTime env t)"

definition setMonth :: "env \<Rightarrow> time \<Rightarrow> int \<Rightarrow> time option" where
  "setMonth env t month =
     (let lt = LocalTime env t
      in TimeClip (UTC env (MakeDate (MakeDay (YearFromTime lt) month (DateFromTime lt))
                                     (TimeWithinDay lt))))"

text \<open>
  \<^verbatim>\<open>TO_CHAR(date, 'YYYY-MM')\<close> of PostgreSQL on a \<^verbatim>\<open>timestamp\<close> column, which holds the UTC
  fields of the time value: the year with four digits at least (a year before 1 AD shown
  by its BC number), a hyphen, the month with two digits.
\<close>

definition zero_pad :: "nat \<Rightarrow> string \<Rightarrow> string" where
  "zero_pad n s = replicate (n - length s) (CHR ''0'') @ s"

definition to_char_YYYY_MM :: "time \<Rightarrow> string" where
  "to_char_YYYY_MM t =
     (let y = YearFromTime t; m = MonthFromTime t + 1
      in zero_pad 4 (digits10 (nat (if y \<le> 0 then 1 - y else y))) @ ''-''
         @ zero_pad 2 (digits10 (nat m)))"

section \<open>The schema\<close>

text \<open>
  The tables of \<^verbatim>\<open>shared/schema.ts\<close>.  A \<^verbatim>\<open>decimal(12, 2)\<close> column reaches the server as the
  decimal text of its value; the model keeps the value itself, counted in hundredths, so
  that \<open>85000\<close> stands for the text \<^verbatim>\<open>850.00\<close>.  A \<^verbatim>\<open>timestamp\<close> column is the time value of
  the \<^verbatim>\<open>Date\<close> it is mapped to.
\<close>

datatype category =
    Food | Transportation | Entertainment | Bills | Shopping | Healthcare | Education
  | Travel | Groceries | Utilities | Insurance | Investment | Income | Other

fun category_name :: "category \<Rightarrow> string" where
  "category_name Food = ''Food''"
| "category_name Transportation = ''Transportation''"
| "category_name Entertainment = ''Entertainment''"
| "category_name Bills = ''Bills''"
| "category_name Shopping = ''Shopping''"
| "category_name Healthcare = ''Healthcare''"
| "category_name Education = ''Education''"
| "category_name Travel = ''Travel''"
| "category_name Groceries = ''Groceries''"
| "category_name Utilities = ''Utilities''"
| "category_name Insurance = ''Insurance''"
| "category_name Investment = ''Investment''"
| "category_name Income = ''Income''"
| "category_name Other = ''Other''"

datatype transaction_type = income | expense

type_synonym decimal = int

record transaction =
  t_id :: uuid
  t_userId :: uuid
  t_amount :: decimal
  t_description :: string
  t_category :: category
  t_type :: transaction_type
  t_date :: time
  t_createdAt :: time

record budget =
  b_id :: uuid
  b_userId :: uuid
  b_category :: category
  b_amount :: decimal
  b_month :: int
  b_year :: int
  b_createdAt :: time

record goal =
  g_id :: uuid
  g_userId :: uuid
  g_title :: string
  g_targetAmount :: decimal
  g_currentAmount :: decimal
  g_targetDate :: "time option"
  g_isCompleted :: bool
  g_createdAt :: time

record notification =
  n_id :: uuid
  n_userId :: uuid
  n_title :: string
  n_message :: string
  n_type :: string
  n_isRead :: bool
  n_createdAt :: time

text \<open>
  The insert types (\<^verbatim>\<open>InsertTransaction & { userId }\<close> and its siblings): the columns the
  caller gives, the others being filled in by the database.
\<close>

record insert_transaction =
  it_amount :: decimal
  it_description :: string
  it_category :: category
  it_type :: transaction_type
  it_date :: time

record insert_notification =
  in_userId :: uuid
  in_title :: string
  in_message :: string
  in_type :: string

text \<open>The partial insert types of the update routes: an absent field is \<open>None\<close>.\<close>

record partial_transaction =
  pt_amount :: "decimal option"
  pt_description :: "string option"
  pt_category :: "category option"
  pt_type :: "transaction_type option"
  pt_date :: "time option"

record partial_budget =
  pb_category :: "category option"
  pb_amount :: "decimal option"
  pb_month :: "int option"
  pb_year :: "int option"

record partial_goal =
  pg_title :: "string option"
  pg_targetAmount :: "decimal option"
  pg_targetDate :: "time option option"

text \<open>
  \<^verbatim>\<open>parseFloat\<close> on the text of a decimal column: the binary64 value nearest to the decimal.
\<close>

definition parseFloat :: "decimal \<Rightarrow> number" where
  "parseFloat a = round64 (real_of_int a / 100)"

section \<open>The storage\<close>

text \<open>
  The state of the server: the four tables the routes touch, the lines written with
  \<^verbatim>\<open>console.error\<close>, and the trace of the calls made to the storage object, in order.
\<close>

datatype error = DbError | RangeError

datatype call =
    CreateTransaction uuid insert_transaction
  | GetTransactionsByDateRange uuid "time option" "time option"
  | UpdateTransaction uuid partial_transaction
  | DeleteTransaction uuid
  | GetBudgetByCategory uuid category int int
  | UpdateBudget uuid partial_budget
  | DeleteBudget uuid
  | UpdateGoal uuid partial_goal
  | DeleteGoal uuid
  | CreateNotification insert_notification
  | GetSpendingByCategory uuid int int
  | GetMonthlyTrends uuid int

record world =
  transactions :: "transaction list"
  budgets :: "budget list"
  goals :: "goal list"
  notifications :: "notification list"
  console :: "(string \<times> error) list"
  trace :: "call list"

text \<open>
  Every method of the storage object goes through \<open>storage_call\<close>: the call is put on the
  trace, and it either throws (the database or the driver failed, as the environment says)
  and leaves the tables as they were, or runs its statement.
\<close>

definition storage_call ::
  "env \<Rightarrow> call \<Rightarrow> (world \<Rightarrow> (error + 'a) \<times> world) \<Rightarrow> world \<Rightarrow> (error + 'a) \<times> world" where
  "storage_call env c run w =
     (let w1 = w\<lparr>trace := trace w @ [c]\<rparr>
      in if fails env (length (trace w)) then (Inl DbError, w1) else run w1)"

subsection \<open>Transactions\<close>

text \<open>The row that \<^verbatim>\<open>INSERT INTO transactions ... RETURNING *\<close> stores and returns.\<close>

definition newTransaction :: "env \<Rightarrow> uuid \<Rightarrow> insert_transaction \<Rightarrow> world \<Rightarrow> transaction" where
  "newTransaction env userId tx w =
     \<lparr>t_id = gen_random_uuid env (length (trace w)), t_userId = userId,
      t_amount = it_amount tx, t_description = it_description tx,
      t_category = it_category tx, t_type = it_type tx, t_date = it_date tx,
      t_createdAt = defaultNow env (length (trace w))\<rparr>"

definition createTransaction ::
  "env \<Rightarrow> uuid \<Rightarrow> insert_transaction \<Rightarrow> world \<Rightarrow> (error + transaction) \<times> world" where
  "createTransaction env userId tx w =
     storage_call env (CreateTransaction userId tx)
       (\<lambda>w1. (Inr (newTransaction env userId tx w),
              w1\<lparr>transactions := transactions w1 @ [newTransaction env userId tx w]\<rparr>))
       w"

text \<open>
  The rows of \<open>getTransactionsByDateRange\<close>: those of the user with
  \<open>startDate \<le> date \<le> endDate\<close>, latest first.
\<close>

definition in_range :: "uuid \<Rightarrow> time \<Rightarrow> time \<Rightarrow> transaction \<Rightarrow> bool" where
  "in_range userId startDate endDate t =
     (t_userId t = userId \<and> startDate \<le> t_date t \<and> t_date t \<le> endDate)"

definition transactionsByDateRange :: "transaction list \<Rightarrow> uuid \<Rightarrow> time \<Rightarrow> time \<Rightarrow> transaction list" where
  "transactionsByDateRange ts userId startDate endDate =
     sort_key (\<lambda>t. - t_date t) (filter (in_range userId startDate endDate) ts)"

text \<open>An invalid \<^verbatim>\<open>Date\<close> among the bounds makes the driver throw a \<^verbatim>\<open>RangeError\<close>.\<close>

definition getTransactionsByDateRange ::
  "env \<Rightarrow> uuid \<Rightarrow> time option \<Rightarrow> time option \<Rightarrow> world \<Rightarrow> (error + transaction list) \<times> world" where
  "getTransactionsByDateRange env userId startDate endDate w =
     storage_call env (GetTransactionsByDateRange userId startDate endDate)
       (\<lambda>w1. case (startDate, endDate) of
                (Some s, Some e) \<Rightarrow> (Inr (transactionsByDateRange (transactions w1) userId s e), w1)
              | _ \<Rightarrow> (Inl RangeError, w1))
       w"

definition set_transaction :: "partial_transaction \<Rightarrow> transaction \<Rightarrow> transaction" where
  "set_transaction p t =
     t\<lparr>t_amount := (case pt_amount p of None \<Rightarrow> t_amount t | Some v \<Rightarrow> v),
       t_description := (case pt_description p of None \<Rightarrow> t_description t | Some v \<Rightarrow> v),
       t_category := (case pt_category p of None \<Rightarrow> t_category t | Some v \<Rightarrow> v),
       t_type := (case pt_type p of None \<Rightarrow> t_type t | Some v \<Rightarrow> v),
       t_date := (case pt_date p of None \<Rightarrow> t_date t | Some v \<Rightarrow> v)\<rparr>"

text \<open>
  \<^verbatim>\<open>UPDATE transactions SET ... WHERE id = $1 RETURNING *\<close>: the first row returned, if any.
\<close>

definition updateTransaction ::
  "env \<Rightarrow> uuid \<Rightarrow> partial_transaction \<Rightarrow> world \<Rightarrow> (error + transaction option) \<times> world" where
  "updateTransaction env id' p w =
     storage_call env (UpdateTransaction id' p)
       (\<lambda>w1. let rows = map (\<lambda>t. if t_id t = id' then set_transaction p t else t) (transactions w1)
             in (Inr (find (\<lambda>t. t_id t = id') rows), w1\<lparr>transactions := rows\<rparr>))
       w"

text \<open>\<^verbatim>\<open>DELETE FROM transactions WHERE id = $1\<close>: whether a row was deleted.\<close>

definition deleteTransaction :: "env \<Rightarrow> uuid \<Rightarrow> world \<Rightarrow> (error + bool) \<times> world" where
  "deleteTransaction env id' w =
     storage_call env (DeleteTransaction id')
       (\<lambda>w1. (Inr (0 < length (filter (\<lambda>t. t_id t = id') (transactions w1))),
              w1\<lparr>transactions := filter (\<lambda>t. t_id t \<noteq> id') (transactions w1)\<rparr>))
       w"

subsection \<open>Budgets\<close>

text \<open>The \<^verbatim>\<open>WHERE\<close> clause of \<open>getBudgetByCategory\<close>, which returns the first row found.\<close>

definition budget_matches :: "uuid \<Rightarrow> category \<Rightarrow> int \<Rightarrow> int \<Rightarrow> budget \<Rightarrow> bool" where
  "budget_matches userId cat month year b =
     (b_userId b = userId \<and> b_category b = cat \<and> b_month b = month \<and> b_year b = year)"

definition getBudgetByCategory ::
  "env \<Rightarrow> uuid \<Rightarrow> category \<Rightarrow> int \<Rightarrow> int \<Rightarrow> world \<Rightarrow> (error + budget option) \<times> world" where
  "getBudgetByCategory env userId cat month year w =
     storage_call env (GetBudgetByCategory userId cat month year)
       (\<lambda>w1. (Inr (find (budget_matches userId cat month year) (budgets w1)), w1))
       w"

definition set_budget :: "partial_budget \<Rightarrow> budget \<Rightarrow> budget" where
  "set_budget p b =
     b\<lparr>b_category := (case pb_category p of None \<Rightarrow> b_category b | Some v \<Rightarrow> v),
       b_amount := (case pb_amount p of None \<Rightarrow> b_amount b | Some v \<Rightarrow> v),
       b_month := (case pb_month p of None \<Rightarrow> b_month b | Some v \<Rightarrow> v),
       b_year := (case pb_year p of None \<Rightarrow> b_year b | Some v \<Rightarrow> v)\<rparr>"

definition updateBudget ::
  "env \<Rightarrow> uuid \<Rightarrow> partial_budget \<Rightarrow> world \<Rightarrow> (error + budget option) \<times> world" where
  "updateBudget env id' p w =
     storage_call env (UpdateBudget id' p)
       (\<lambda>w1. let rows = map (\<lambda>b. if b_id b = id' then set_budget p b else b) (budgets w1)
             in (Inr (find (\<lambda>b. b_id b = id') rows), w1\<lparr>budgets := rows\<rparr>))
       w"

definition deleteBudget :: "env \<Rightarrow> uuid \<Rightarrow> world \<Rightarrow> (error + bool) \<times> world" where
  "deleteBudget env id' w =
     storage_call env (DeleteBudget id')
       (\<lambda>w1. (Inr (0 < length (filter (\<lambda>b. b_id b = id') (budgets w1))),
              w1\<lparr>budgets := filter (\<lambda>b. b_id b \<noteq> id') (budgets w1)\<rparr>))
       w"

subsection \<open>Goals\<close>

definition set_goal :: "partial_goal \<Rightarrow> goal \<Rightarrow> goal" where
  "set_goal p g =
     g\<lparr>g_title := (case pg_title p of None \<Rightarrow> g_title g | Some v \<Rightarrow> v),
       g_targetAmount := (case pg_targetAmount p of None \<Rightarrow> g_targetAmount g | Some v \<Rightarrow> v),
       g_targetDate := (case pg_targetDate p of None \<Rightarrow> g_targetDate g | Some v \<Rightarrow> v)\<rparr>"

definition updateGoal ::
  "env \<Rightarrow> uuid \<Rightarrow> partial_goal \<Rightarrow> world \<Rightarrow> (error + goal option) \<times> world" where
  "updateGoal env id' p w =
     storage_call env (UpdateGoal id' p)
       (\<lambda>w1. let rows = map (\<lambda>g. if g_id g = id' then set_goal p g else g) (goals w1)
             in (Inr (find (\<lambda>g. g_id g = id') rows), w1\<lparr>goals := rows\<rparr>))
       w"

definition deleteGoal :: "env \<Rightarrow> uuid \<Rightarrow> world \<Rightarrow> (error + bool) \<times> world" where
  "deleteGoal env id' w =
     storage_call env (DeleteGoal id')
       (\<lambda>w1. (Inr (0 < length (filter (\<lambda>g. g_id g = id') (goals w1))),
              w1\<lparr>goals := filter (\<lambda>g. g_id g \<noteq> id') (goals w1)\<rparr>))
       w"

subsection \<open>Notifications\<close>

text \<open>The row that \<^verbatim>\<open>INSERT INTO notifications ... RETURNING *\<close> stores and returns.\<close>

definition newNotification :: "env \<Rightarrow> insert_notification \<Rightarrow> world \<Rightarrow> notification" where
  "newNotification env n w =
     \<lparr>n_id = gen_random_uuid env (length (trace w)), n_userId = in_userId n,
      n_title = in_title n, n_message = in_message n, n_type = in_type n,
      n_isRead = False, n_createdAt = defaultNow env (length (trace w))\<rparr>"

definition createNotification ::
  "env \<Rightarrow> insert_notification \<Rightarrow> world \<Rightarrow> (error + notification) \<times> world" where
  "createNotification env n w =
     storage_call env (CreateNotification n)
       (\<lambda>w1. (Inr (newNotification env n w),
              w1\<lparr>notifications := notifications w1 @ [newNotification env n w]\<rparr>))
       w"

subsection \<open>Analytics\<close>

text \<open>
  \<open>getSpendingByCategory\<close>: \<^verbatim>\<open>SELECT category, SUM(amount) ... GROUP BY category\<close> over the
  expense rows of the user in the month.  \<^verbatim>\<open>SUM\<close> over a \<^verbatim>\<open>numeric\<close> column is exact.
\<close>

definition spendingByCategory ::
  "transaction list \<Rightarrow> uuid \<Rightarrow> time \<Rightarrow> time \<Rightarrow> (category \<times> decimal) list" where
  "spendingByCategory ts userId startDate endDate =
     (let rows = filter (\<lambda>t. in_range userId startDate endDate t \<and> t_type t = expense) ts
      in map (\<lambda>c. (c, sum_list (map t_amount (filter (\<lambda>t. t_category t = c) rows))))
             (remdups (map t_category rows)))"

definition getSpendingByCategory ::
  "env \<Rightarrow> uuid \<Rightarrow> int \<Rightarrow> int \<Rightarrow> world \<Rightarrow> (error + (category \<times> decimal) list) \<times> world" where
  "getSpendingByCategory env userId month year w =
     (let startDate = newDate env year (month - 1) 1 0 0 0;
          endDate = newDate env year month 0 23 59 59
      in storage_call env (GetSpendingByCategory userId month year)
           (\<lambda>w1. case (startDate, endDate) of
                    (Some s, Some e) \<Rightarrow> (Inr (spendingByCategory (transactions w1) userId s e), w1)
                  | _ \<Rightarrow> (Inl RangeError, w1))
           w)"

text \<open>
  \<open>getMonthlyTrends\<close>: the rows of the user between \<open>startDate\<close> and \<open>endDate\<close>, grouped and
  ordered by \<^verbatim>\<open>TO_CHAR(date, 'YYYY-MM')\<close>, with the two conditional sums of the query.
\<close>

record trend =
  tr_month :: string
  tr_income :: decimal
  tr_expenses :: decimal

definition monthlyTrends :: "transaction list \<Rightarrow> uuid \<Rightarrow> time \<Rightarrow> time \<Rightarrow> trend list" where
  "monthlyTrends ts userId startDate endDate =
     (let rows = filter (in_range userId startDate endDate) ts
      in map (\<lambda>k. let grp = filter (\<lambda>t. to_char_YYYY_MM (t_date t) = k) rows
                  in \<lparr>tr_month = k,
                      tr_income = sum_list (map (\<lambda>t. if t_type t = income then t_amount t else 0) grp),
                      tr_expenses = sum_list (map (\<lambda>t. if t_type t = expense then t_amount t else 0) grp)\<rparr>)
             (sort (remdups (map (\<lambda>t. to_char_YYYY_MM (t_date t)) rows))))"

definition getMonthlyTrends ::
  "env \<Rightarrow> uuid \<Rightarrow> int \<Rightarrow> world \<Rightarrow> (error + trend list) \<times> world" where
  "getMonthlyTrends env userId months w =
     (let endDate = now env 0;
          startDate = setMonth env (now env 1) (getMonth env endDate - months)
      in storage_call env (GetMonthlyTrends userId months)
           (\<lambda>w1. case startDate of
                    Some s \<Rightarrow> (Inr (monthlyTrends (transactions w1) userId s endDate), w1)
                  | None \<Rightarrow> (Inl RangeError, w1))
           w)"

section \<open>The budget-alert evaluator\<close>

text \<open>The locals of \<open>checkBudgetAlerts\<close>, under their names.\<close>

definition categoryTransactions :: "category \<Rightarrow> transaction list \<Rightarrow> transaction list" where
  "categoryTransactions cat ts = filter (\<lambda>t. t_category t = cat \<and> t_type t = expense) ts"

definition totalSpent :: "transaction list \<Rightarrow> number" where
  "totalSpent ts = foldl (\<lambda>sum t. num_add sum (parseFloat (t_amount t))) (Fin 0) ts"

definition percentage :: "number \<Rightarrow> number \<Rightarrow> number" where
  "percentage total_spent budgetAmount = num_mul (num_div total_spent budgetAmount) (Fin 100)"

text \<open>The rupee sign of the messages, in UTF-8.\<close>

definition rupee :: string where
  "rupee = [CHR 0xE2, CHR 0x82, CHR 0xB9]"

definition alert_notification :: "env \<Rightarrow> uuid \<Rightarrow> category \<Rightarrow> number \<Rightarrow> number \<Rightarrow> insert_notification" where
  "alert_notification env userId cat total_spent budgetAmount =
     \<lparr>in_userId = userId,
      in_title = ''Budget Alert - '' @ category_name cat,
      in_message = ''You'' @ [CHR 0x27] @ ''ve spent ''
         @ toFixed1 (numberToString env) (percentage total_spent budgetAmount)
         @ ''% of your '' @ category_name cat @ '' budget this month (''
         @ rupee @ toLocaleString env total_spent @ '' of ''
         @ rupee @ toLocaleString env budgetAmount @ '')'',
      in_type = ''warning''\<rparr>"

definition exceeded_notification :: "env \<Rightarrow> uuid \<Rightarrow> category \<Rightarrow> number \<Rightarrow> number \<Rightarrow> insert_notification" where
  "exceeded_notification env userId cat total_spent budgetAmount =
     \<lparr>in_userId = userId,
      in_title = ''Budget Exceeded - '' @ category_name cat,
      in_message = ''You'' @ [CHR 0x27] @ ''ve exceeded your '' @ category_name cat
         @ '' budget by '' @ rupee @ toLocaleString env (num_sub total_spent budgetAmount),
      in_type = ''warning''\<rparr>"

text \<open>
  The lines of \<open>checkBudgetAlerts\<close> from \<^verbatim>\<open>startDate\<close> to \<^verbatim>\<open>totalSpent\<close>: the month's bounds,
  the query, the filter and the sum.
\<close>

definition computeTotalSpent ::
  "env \<Rightarrow> uuid \<Rightarrow> category \<Rightarrow> int \<Rightarrow> int \<Rightarrow> world \<Rightarrow> (error + number) \<times> world" where
  "computeTotalSpent env userId cat month year w =
     (let startDate = newDate env year (month - 1) 1 0 0 0;
          endDate = newDate env year month 0 23 59 59
      in case getTransactionsByDateRange env userId startDate endDate w of
           (Inl e, w1) \<Rightarrow> (Inl e, w1)
         | (Inr ts, w1) \<Rightarrow> (Inr (totalSpent (categoryTransactions cat ts)), w1))"

text \<open>The \<^verbatim>\<open>try\<close> block of \<open>checkBudgetAlerts\<close>; \<open>Inl\<close> is an exception leaving the block.\<close>

definition checkBudgetAlerts_try ::
  "env \<Rightarrow> uuid \<Rightarrow> category \<Rightarrow> int \<Rightarrow> int \<Rightarrow> world \<Rightarrow> (error + unit) \<times> world" where
  "checkBudgetAlerts_try env userId cat month year w =
     (case getBudgetByCategory env userId cat month year w of
        (Inl e, w1) \<Rightarrow> (Inl e, w1)
      | (Inr None, w1) \<Rightarrow> (Inr (), w1)
      | (Inr (Some budget), w1) \<Rightarrow>
          (case computeTotalSpent env userId cat month year w1 of
             (Inl e, w2) \<Rightarrow> (Inl e, w2)
           | (Inr total_spent, w2) \<Rightarrow>
               let budgetAmount = parseFloat (b_amount budget);
                   pct = percentage total_spent budgetAmount
               in if num_ge pct (Fin 80) \<and> num_lt pct (Fin 100) then
                    (case createNotification env
                            (alert_notification env userId cat total_spent budgetAmount) w2 of
                       (Inl e, w3) \<Rightarrow> (Inl e, w3)
                     | (Inr n, w3) \<Rightarrow> (Inr (), w3))
                  else if num_ge pct (Fin 100) then
                    (case createNotification env
                            (exceeded_notification env userId cat total_spent budgetAmount) w2 of
                       (Inl e, w3) \<Rightarrow> (Inl e, w3)
                     | (Inr n, w3) \<Rightarrow> (Inr (), w3))
                  else (Inr (), w2)))"

text \<open>\<open>checkBudgetAlerts\<close>: the \<^verbatim>\<open>catch\<close> writes the error to the console and returns.\<close>

definition checkBudgetAlerts :: "env \<Rightarrow> uuid \<Rightarrow> category \<Rightarrow> int \<Rightarrow> int \<Rightarrow> world \<Rightarrow> world" where
  "checkBudgetAlerts env userId cat month year w =
     (case checkBudgetAlerts_try env userId cat month year w of
        (Inl e, w1) \<Rightarrow> w1\<lparr>console := console w1 @ [(''Error checking budget alerts:'', e)]\<rparr>
      | (Inr u, w1) \<Rightarrow> w1)"

text \<open>
  Two observations on the evaluator, for stating its properties.  \<open>checkBudgetAlerts\<close> is
  the only caller of \<open>getBudgetByCategory\<close> and calls it first, once: its invocations are
  the lookups on the trace.  \<open>evaluated_percentage\<close> is the value of \<^verbatim>\<open>percentage\<close> that an
  invocation computes in a state when its storage calls succeed; there is none when no
  budget matches or a bound of the month is an invalid date.
\<close>

fun is_budget_lookup :: "call \<Rightarrow> bool" where
  "is_budget_lookup (GetBudgetByCategory userId cat month year) = True"
| "is_budget_lookup c = False"

definition evaluated_percentage ::
  "env \<Rightarrow> uuid \<Rightarrow> category \<Rightarrow> int \<Rightarrow> int \<Rightarrow> world \<Rightarrow> number option" where
  "evaluated_percentage env userId cat month year w =
     (case find (budget_matches userId cat month year) (budgets w) of
        None \<Rightarrow> None
      | Some budget \<Rightarrow>
          (case (newDate env year (month - 1) 1 0 0 0, newDate env year month 0 23 59 59) of
             (Some s, Some e) \<Rightarrow>
               Some (percentage
                       (totalSpent (categoryTransactions cat
                          (transactionsByDateRange (transactions w) userId s e)))
                       (parseFloat (b_amount budget)))
           | _ \<Rightarrow> None))"

section \<open>The routes\<close>

text \<open>
  A route takes the user of the session (\<open>None\<close> when the request is not authenticated)
  and the outcome of the schema validation of the body (\<open>None\<close> when \<^verbatim>\<open>parse\<close> throws a
  \<^verbatim>\<open>ZodError\<close>), and gives the status and body of the response with the new state.
\<close>

datatype payload =
    NoBody | Message string | TransactionJson transaction | BudgetJson budget | GoalJson goal

type_synonym response = "nat \<times> payload"

definition post_api_transactions ::
  "env \<Rightarrow> uuid option \<Rightarrow> insert_transaction option \<Rightarrow> world \<Rightarrow> response \<times> world" where
  "post_api_transactions env user body w =
     (case user of
        None \<Rightarrow> ((401, NoBody), w)
      | Some uid \<Rightarrow>
          (case body of
             None \<Rightarrow> ((400, Message ''Invalid transaction data''), w)
           | Some validatedData \<Rightarrow>
               (case createTransaction env uid validatedData w of
                  (Inl e, w1) \<Rightarrow> ((500, Message ''Failed to create transaction''), w1)
                | (Inr transaction, w1) \<Rightarrow>
                    let w2 = (if it_type validatedData = expense
                              then checkBudgetAlerts env uid (it_category validatedData)
                                     (getMonth env (now env 0) + 1) (getFullYear env (now env 1)) w1
                              else w1)
                    in ((201, TransactionJson transaction), w2))))"

definition put_api_transactions ::
  "env \<Rightarrow> uuid option \<Rightarrow> uuid \<Rightarrow> partial_transaction option \<Rightarrow> world \<Rightarrow> response \<times> world" where
  "put_api_transactions env user id' body w =
     (case user of
        None \<Rightarrow> ((401, NoBody), w)
      | Some uid \<Rightarrow>
          (case body of
             None \<Rightarrow> ((400, Message ''Invalid transaction data''), w)
           | Some validatedData \<Rightarrow>
               (case updateTransaction env id' validatedData w of
                  (Inl e, w1) \<Rightarrow> ((500, Message ''Failed to update transaction''), w1)
                | (Inr None, w1) \<Rightarrow> ((404, Message ''Transaction not found''), w1)
                | (Inr (Some transaction), w1) \<Rightarrow> ((200, TransactionJson transaction), w1))))"

definition delete_api_transactions ::
  "env \<Rightarrow> uuid option \<Rightarrow> uuid \<Rightarrow> world \<Rightarrow> response \<times> world" where
  "delete_api_transactions env user id' w =
     (case user of
        None \<Rightarrow> ((401, NoBody), w)
      | Some uid \<Rightarrow>
          (case deleteTransaction env id' w of
             (Inl e, w1) \<Rightarrow> ((500, Message ''Failed to delete transaction''), w1)
           | (Inr success, w1) \<Rightarrow>
               if \<not> success then ((404, Message ''Transaction not found''), w1)
               else ((204, NoBody), w1)))"

definition put_api_budgets ::
  "env \<Rightarrow> uuid option \<Rightarrow> uuid \<Rightarrow> partial_budget option \<Rightarrow> world \<Rightarrow> response \<times> world" where
  "put_api_budgets env user id' body w =
     (case user of
        None \<Rightarrow> ((401, NoBody), w)
      | Some uid \<Rightarrow>
          (case body of
             None \<Rightarrow> ((400, Message ''Invalid budget data''), w)
           | Some validatedData \<Rightarrow>
               (case updateBudget env id' validatedData w of
                  (Inl e, w1) \<Rightarrow> ((500, Message ''Failed to update budget''), w1)
                | (Inr None, w1) \<Rightarrow> ((404, Message ''Budget not found''), w1)
                | (Inr (Some budget), w1) \<Rightarrow> ((200, BudgetJson budget), w1))))"

definition delete_api_budgets ::
  "env \<Rightarrow> uuid option \<Rightarrow> uuid \<Rightarrow> world \<Rightarrow> response \<times> world" where
  "delete_api_budgets env user id' w =
     (case user of
        None \<Rightarrow> ((401, NoBody), w)
      | Some uid \<Rightarrow>
          (case deleteBudget env id' w of
             (Inl e, w1) \<Rightarrow> ((500, Message ''Failed to delete budget''), w1)
           | (Inr success, w1) \<Rightarrow>
               if \<not> success then ((404, Message ''Budget not found''), w1)
               else ((204, NoBody), w1)))"

definition put_api_goals ::
  "env \<Rightarrow> uuid option \<Rightarrow> uuid \<Rightarrow> partial_goal option \<Rightarrow> world \<Rightarrow> response \<times> world" where
  "put_api_goals env user id' body w =
     (case user of
        None \<Rightarrow> ((401, NoBody), w)
      | Some uid \<Rightarrow>
          (case body of
             None \<Rightarrow> ((400, Message ''Invalid goal data''), w)
           | Some validatedData \<Rightarrow>
               (case updateGoal env id' validatedData w of
                  (Inl e, w1) \<Rightarrow> ((500, Message ''Failed to update goal''), w1)
                | (Inr None, w1) \<Rightarrow> ((404, Message ''Goal not found''), w1)
                | (Inr (Some goal), w1) \<Rightarrow> ((200, GoalJson goal), w1))))"

definition delete_api_goals ::
  "env \<Rightarrow> uuid option \<Rightarrow> uuid \<Rightarrow> world \<Rightarrow> response \<times> world" where
  "delete_api_goals env user id' w =
     (case user of
        None \<Rightarrow> ((401, NoBody), w)
      | Some uid \<Rightarrow>
          (case deleteGoal env id' w of
             (Inl e, w1) \<Rightarrow> ((500, Message ''Failed to delete goal''), w1)
           | (Inr success, w1) \<Rightarrow>
               if \<not> success then ((404, Message ''Goal not found''), w1)
               else ((204, NoBody), w1)))"

section \<open>A sample server\<close>

text \<open>
  A server in the time zone of Kolkata (UTC+05:30 all year) whose clock reads
  2024-03-15T10:00:00Z, whose storage never fails, and whose number formatting writes the
  integer part of a value in plain digits.  Alice has a Food budget of 1000.00 for March
  2024.
\<close>

definition plain_digits :: "number \<Rightarrow> string" where
  "plain_digits x = digits10 (nat \<lfloor>fin_val x\<rfloor>)"

definition env0 :: env where
  "env0 =
     \<lparr>now = (\<lambda>k. 1710496800000), localTZA = (\<lambda>t isUTC. 19800000), fails = (\<lambda>k. False),
      gen_random_uuid = (\<lambda>k. ''row-'' @ digits10 k), defaultNow = (\<lambda>k. 1710496800000),
      toLocaleString = plain_digits, numberToString = plain_digits\<rparr>"

definition food_budget :: budget where
  "food_budget =
     \<lparr>b_id = ''b-food'', b_userId = ''alice'', b_category = Food, b_amount = 100000,
      b_month = 3, b_year = 2024, b_createdAt = 1709300000000\<rparr>"

definition world0 :: world where
  "world0 =
     \<lparr>transactions = [], budgets = [food_budget], goals = [], notifications = [],
      console = [], trace = []\<rparr>"

text \<open>A bus ticket of 50.00, dated 2024-03-09T16:00:00Z.\<close>

definition tx_bus :: insert_transaction where
  "tx_bus =
     \<lparr>it_amount = 5000, it_description = ''bus'', it_category = Transportation,
      it_type = expense, it_date = 1710000000000\<rparr>"

text \<open>
  Two Food expenses of Alice, a dinner of 850.00 dated 2024-03-09T16:00:00Z and a party of
  200.00 dated 2024-03-14T07:06:40Z, as request bodies and as the rows the sample server
  stores for them when they are posted in this order.
\<close>

definition tx_dinner :: insert_transaction where
  "tx_dinner =
     \<lparr>it_amount = 85000, it_description = ''dinner'', it_category = Food,
      it_type = expense, it_date = 1710000000000\<rparr>"

definition tx_party :: insert_transaction where
  "tx_party =
     \<lparr>it_amount = 20000, it_description = ''party'', it_category = Food,
      it_type = expense, it_date = 1710400000000\<rparr>"

definition dinner :: transaction where
  "dinner =
     \<lparr>t_id = ''row-0'', t_userId = ''alice'', t_amount = 85000, t_description = ''dinner'',
      t_category = Food, t_type = expense, t_date = 1710000000000,
      t_createdAt = 1710496800000\<rparr>"

definition party :: transaction where
  "party =
     \<lparr>t_id = ''row-4'', t_userId = ''alice'', t_amount = 20000, t_description = ''party'',
      t_category = Food, t_type = expense, t_date = 1710400000000,
      t_createdAt = 1710496800000\<rparr>"

definition world_dinner :: world where
  "world_dinner = world0\<lparr>transactions := [dinner]\<rparr>"

text \<open>The same state with the amount of the Food budget set to 0.00.\<close>

definition world_zero :: world where
  "world_zero = world_dinner\<lparr>budgets := [food_budget\<lparr>b_amount := 0\<rparr>]\<rparr>"

text \<open>The sample server with a database that fails on the second storage call.\<close>

definition env_down :: env where
  "env_down = env0\<lparr>fails := (\<lambda>k. k = 1)\<rparr>"

text \<open>The states of the sample server after the dinner and after the party are posted.\<close>

definition after_dinner :: world where
  "after_dinner =
     \<lparr>transactions = [dinner], budgets = [food_budget], goals = [],
      notifications =
        [\<lparr>n_id = ''row-3'', n_userId = ''alice'', n_title = ''Budget Alert - Food'',
          n_message = ''You'' @ [CHR 0x27] @ ''ve spent 85.0% of your Food budget this month (''
             @ rupee @ ''850 of '' @ rupee @ ''1000)'',
          n_type = ''warning'', n_isRead = False, n_createdAt = 1710496800000\<rparr>],
      console = [],
      trace = [CreateTransaction ''alice'' tx_dinner,
               GetBudgetByCategory ''alice'' Food 3 2024,
               GetTransactionsByDateRange ''alice'' (Some 1709231400000) (Some 1711909799000),
               CreateNotification (alert_notification env0 ''alice'' Food (Fin 850) (Fin 1000))]\<rparr>"

definition after_party :: world where
  "after_party =
     \<lparr>transactions = [dinner, party], budgets = [food_budget], goals = [],
      notifications = notifications after_dinner @
        [\<lparr>n_id = ''row-7'', n_userId = ''alice'', n_title = ''Budget Exceeded - Food'',
          n_message = ''You'' @ [CHR 0x27] @ ''ve exceeded your Food budget by '' @ rupee @ ''50'',
          n_type = ''warning'', n_isRead = False, n_createdAt = 1710496800000\<rparr>],
      console = [],
      trace = trace after_dinner @
              [CreateTransaction ''alice'' tx_party,
               GetBudgetByCategory ''alice'' Food 3 2024,
               GetTransactionsByDateRange ''alice'' (Some 1709231400000) (Some 1711909799000),
               CreateNotification (exceeded_notification env0 ''alice'' Food (Fin 1050) (Fin 1000))]\<rparr>"

text \<open>
  A table with rows of several kinds around the dinner: a lunch of Bob (300.00, Food,
  2024-03-10), Alice's salary (5000.00, an income, 2024-03-07), a Food expense of hers in
  February (120.00, 2024-02-20), a taxi (75.00, Transportation, 2024-03-11), a snack
  half a second after 23:59:59 on the last day of March in Kolkata (10.00, Food) and
  bread bought on 2024-02-10 (60.00, Food).
\<close>

definition lunch :: transaction where
  "lunch =
     \<lparr>t_id = ''t-lunch'', t_userId = ''bob'', t_amount = 30000, t_description = ''lunch'',
      t_category = Food, t_type = expense, t_date = 1710100000000,
      t_createdAt = 1710100000000\<rparr>"

definition salary :: transaction where
  "salary =
     \<lparr>t_id = ''t-salary'', t_userId = ''alice'', t_amount = 500000, t_description = ''salary'',
      t_category = Income, t_type = income, t_date = 1709800000000,
      t_createdAt = 1709800000000\<rparr>"

definition february :: transaction where
  "february =
     \<lparr>t_id = ''t-february'', t_userId = ''alice'', t_amount = 12000,
      t_description = ''groceries'', t_category = Food, t_type = expense,
      t_date = 1708430400000, t_createdAt = 1708430400000\<rparr>"

definition taxi :: transaction where
  "taxi =
     \<lparr>t_id = ''t-taxi'', t_userId = ''alice'', t_amount = 7500, t_description = ''taxi'',
      t_category = Transportation, t_type = expense, t_date = 1710200000000,
      t_createdAt = 1710200000000\<rparr>"

definition snack :: transaction where
  "snack =
     \<lparr>t_id = ''t-snack'', t_userId = ''alice'', t_amount = 1000, t_description = ''snack'',
      t_category = Food, t_type = expense, t_date = 1711909799500,
      t_createdAt = 1711909799500\<rparr>"

definition early :: transaction where
  "early =
     \<lparr>t_id = ''t-early'', t_userId = ''alice'', t_amount = 6000, t_description = ''bread'',
      t_category = Food, t_type = expense, t_date = 1707566400000,
      t_createdAt = 1707566400000\<rparr>"

definition world_mixed :: world where
  "world_mixed =
     world0\<lparr>transactions := [lunch, salary, dinner, february, taxi, snack, early]\<rparr>"

text \<open>
  The sample server on 2024-03-31T10:00:00Z (15:30 in Kolkata), with two rows of Alice in
  March: the rent (1500.00, Bills, 2024-03-01T12:00:00Z) and the dinner.
\<close>

definition env_eom :: env where
  "env_eom = env0\<lparr>now := (\<lambda>k. 1711879200000)\<rparr>"

definition rent :: transaction where
  "rent =
     \<lparr>t_id = ''t-rent'', t_userId = ''alice'', t_amount = 150000, t_description = ''rent'',
      t_category = Bills, t_type = expense, t_date = 1709294400000,
      t_createdAt = 1709294400000\<rparr>"

definition world_eom :: world where
  "world_eom = world0\<lparr>transactions := [rent, dinner]\<rparr>"

text \<open>
  A goal of Bob, and two request bodies of the update routes: an amount of 0.01 for a
  transaction, a title for a goal.
\<close>

definition bike :: goal where
  "bike =
     \<lparr>g_id = ''g-bike'', g_userId = ''bob'', g_title = ''bike'', g_targetAmount = 2000000,
      g_currentAmount = 500000, g_targetDate = None, g_isCompleted = False,
      g_createdAt = 1709300000000\<rparr>"

definition world_goal :: world where
  "world_goal = world_mixed\<lparr>goals := [bike]\<rparr>"

definition one_cent :: partial_transaction where
  "one_cent =
     \<lparr>pt_amount = Some 1, pt_description = None, pt_category = None, pt_type = None,
      pt_date = None\<rparr>"

definition retitle :: partial_goal where
  "retitle = \<lparr>pg_title = Some ''car'', pg_targetAmount = None, pg_targetDate = None\<rparr>"

text \<open>
  A small budget: 5.65 for Food in March 2024, and one Food expense of Alice of 4.52, which
  is 80 percent of it in decimal arithmetic.
\<close>

definition coffee :: transaction where
  "coffee =
     \<lparr>t_id = ''t-coffee'', t_userId = ''alice'', t_amount = 452, t_description = ''coffee'',
      t_category = Food, t_type = expense, t_date = 1710000000000,
      t_createdAt = 1710000000000\<rparr>"

definition world_small :: world where
  "world_small =
     world0\<lparr>transactions := [coffee], budgets := [food_budget\<lparr>b_amount := 565\<rparr>]\<rparr>"

text \<open>The state in which Alice's only transaction is the dinner, at a given amount.\<close>

definition world_spent :: "decimal \<Rightarrow> world" where
  "world_spent a = world0\<lparr>transactions := [dinner\<lparr>t_amount := a\<rparr>]\<rparr>"

text \<open>The sample server with a database that fails on the fourth storage call.\<close>

definition env_full :: env where
  "env_full = env0\<lparr>fails := (\<lambda>k. k = 3)\<rparr>"


text \<open>
  A budget of 100.20 for Food in March 2024, and two Food expenses of Alice, 0.10 and
  100.10, which add up to 100 percent of it in decimal arithmetic.
\<close>

definition tip :: transaction where
  "tip =
     \<lparr>t_id = ''t-tip'', t_userId = ''alice'', t_amount = 10, t_description = ''tip'',
      t_category = Food, t_type = expense, t_date = 1710100000000,
      t_createdAt = 1710100000000\<rparr>"

definition feast :: transaction where
  "feast =
     \<lparr>t_id = ''t-feast'', t_userId = ''alice'', t_amount = 10010, t_description = ''feast'',
      t_category = Food, t_type = expense, t_date = 1710000000000,
      t_createdAt = 1710000000000\<rparr>"

definition world_exact :: world where
  "world_exact =
     world0\<lparr>transactions := [feast, tip], budgets := [food_budget\<lparr>b_amount := 10020\<rparr>]\<rparr>"

section \<open>Facts about the storage calls\<close>

lemma storage_call_ok:
  "\<not> fails env (length (trace w)) \<Longrightarrow> storage_call env c run w = run (w\<lparr>trace := trace w @ [c]\<rparr>)"
  by (simp add: storage_call_def)

lemma storage_call_fail:
  "fails env (length (trace w)) \<Longrightarrow> storage_call env c run w = (Inl DbError, w\<lparr>trace := trace w @ [c]\<rparr>)"
  by (simp add: storage_call_def)

lemma getBudgetByCategory_eq:
  "getBudgetByCategory env userId cat month year w =
     (if fails env (length (trace w)) then Inl DbError
      else Inr (find (budget_matches userId cat month year) (budgets w)),
      w\<lparr>trace := trace w @ [GetBudgetByCategory userId cat month year]\<rparr>)"
  by (simp add: getBudgetByCategory_def storage_call_def)

lemma find_no_match: "\<forall>x\<in>set xs. \<not> P x \<Longrightarrow> find P xs = None"
  by (simp add: find_None_iff)

lemma checkBudgetAlerts_try_no_budget:
  assumes "\<forall>b\<in>set (budgets w). \<not> budget_matches userId cat month year b"
  shows "checkBudgetAlerts_try env userId cat month year w =
     (if fails env (length (trace w)) then Inl DbError else Inr (),
      w\<lparr>trace := trace w @ [GetBudgetByCategory userId cat month year]\<rparr>)"
  using find_no_match[OF assms]
  by (simp add: checkBudgetAlerts_try_def getBudgetByCategory_eq)

lemma checkBudgetAlerts_no_budget:
  assumes "\<forall>b\<in>set (budgets w). \<not> budget_matches userId cat month year b"
  shows "checkBudgetAlerts env userId cat month year w =
     w\<lparr>trace := trace w @ [GetBudgetByCategory userId cat month year],
       console := (if fails env (length (trace w))
                   then console w @ [(''Error checking budget alerts:'', DbError)] else console w)\<rparr>"
  by (simp add: checkBudgetAlerts_def checkBudgetAlerts_try_no_budget[OF assms])

lemma createTransaction_eq:
  "createTransaction env userId tx w =
     (if fails env (length (trace w)) then (Inl DbError, w\<lparr>trace := trace w @ [CreateTransaction userId tx]\<rparr>)
      else (Inr (newTransaction env userId tx w),
            w\<lparr>trace := trace w @ [CreateTransaction userId tx],
              transactions := transactions w @ [newTransaction env userId tx w]\<rparr>))"
  by (simp add: createTransaction_def storage_call_def)

lemma post_api_transactions_eq:
  "post_api_transactions env (Some uid) (Some tx) w =
     (if fails env (length (trace w))
      then ((500, Message ''Failed to create transaction''),
            w\<lparr>trace := trace w @ [CreateTransaction uid tx]\<rparr>)
      else ((201, TransactionJson (newTransaction env uid tx w)),
            (if it_type tx = expense
             then checkBudgetAlerts env uid (it_category tx)
                    (getMonth env (now env 0) + 1) (getFullYear env (now env 1))
                    (w\<lparr>trace := trace w @ [CreateTransaction uid tx],
                       transactions := transactions w @ [newTransaction env uid tx w]\<rparr>)
             else w\<lparr>trace := trace w @ [CreateTransaction uid tx],
                    transactions := transactions w @ [newTransaction env uid tx w]\<rparr>)))"
  by (simp add: post_api_transactions_def createTransaction_eq Let_def)

lemma getTransactionsByDateRange_eq:
  "getTransactionsByDateRange env userId sd ed w =
     (if fails env (length (trace w)) then Inl DbError
      else (case (sd, ed) of
              (Some s, Some e) \<Rightarrow> Inr (transactionsByDateRange (transactions w) userId s e)
            | _ \<Rightarrow> Inl RangeError),
      w\<lparr>trace := trace w @ [GetTransactionsByDateRange userId sd ed]\<rparr>)"
  by (simp add: getTransactionsByDateRange_def storage_call_def split: option.splits)

lemma computeTotalSpent_eq:
  "computeTotalSpent env userId cat month year w =
     (if fails env (length (trace w)) then Inl DbError
      else (case (newDate env year (month - 1) 1 0 0 0, newDate env year month 0 23 59 59) of
              (Some s, Some e) \<Rightarrow>
                Inr (totalSpent (categoryTransactions cat
                       (transactionsByDateRange (transactions w) userId s e)))
            | _ \<Rightarrow> Inl RangeError),
      w\<lparr>trace := trace w @ [GetTransactionsByDateRange userId
                 (newDate env year (month - 1) 1 0 0 0) (newDate env year month 0 23 59 59)]\<rparr>)"
  by (simp add: computeTotalSpent_def getTransactionsByDateRange_eq Let_def split: option.splits)

lemma createNotification_eq:
  "createNotification env n w =
     (if fails env (length (trace w))
      then (Inl DbError, w\<lparr>trace := trace w @ [CreateNotification n]\<rparr>)
      else (Inr (newNotification env n w),
            w\<lparr>trace := trace w @ [CreateNotification n],
              notifications := notifications w @ [newNotification env n w]\<rparr>))"
  by (simp add: createNotification_def storage_call_def)

text \<open>
  The evaluator when the lookup finds a budget, the month's bounds are valid dates and
  none of its three storage calls fails.
\<close>

lemma checkBudgetAlerts_try_found:
  assumes nf0: "\<not> fails env (length (trace w))"
    and nf1: "\<not> fails env (length (trace w) + 1)"
    and nf2: "\<not> fails env (length (trace w) + 2)"
    and bud: "find (budget_matches userId cat month year) (budgets w) = Some budget"
    and sd: "newDate env year (month - 1) 1 0 0 0 = Some s"
    and ed: "newDate env year month 0 23 59 59 = Some e"
    and sp: "spent = totalSpent (categoryTransactions cat
                       (transactionsByDateRange (transactions w) userId s e))"
    and am: "amt = parseFloat (b_amount budget)"
    and w2: "w2 = w\<lparr>trace := trace w @ [GetBudgetByCategory userId cat month year,
                       GetTransactionsByDateRange userId (Some s) (Some e)]\<rparr>"
  shows "checkBudgetAlerts_try env userId cat month year w =
     (Inr (),
      if num_ge (percentage spent amt) (Fin 80) \<and> num_lt (percentage spent amt) (Fin 100)
      then w2\<lparr>trace := trace w2 @ [CreateNotification (alert_notification env userId cat spent amt)],
              notifications := notifications w
                 @ [newNotification env (alert_notification env userId cat spent amt) w2]\<rparr>
      else if num_ge (percentage spent amt) (Fin 100)
      then w2\<lparr>trace := trace w2 @ [CreateNotification (exceeded_notification env userId cat spent amt)],
              notifications := notifications w
                 @ [newNotification env (exceeded_notification env userId cat spent amt) w2]\<rparr>
      else w2)"
  using nf0 nf1 nf2
  by (simp add: checkBudgetAlerts_try_def getBudgetByCategory_eq bud computeTotalSpent_eq sd ed
        createNotification_eq sp am w2 Let_def)

lemma checkBudgetAlerts_found:
  assumes nf0: "\<not> fails env (length (trace w))"
    and nf1: "\<not> fails env (length (trace w) + 1)"
    and nf2: "\<not> fails env (length (trace w) + 2)"
    and bud: "find (budget_matches userId cat month year) (budgets w) = Some budget"
    and sd: "newDate env year (month - 1) 1 0 0 0 = Some s"
    and ed: "newDate env year month 0 23 59 59 = Some e"
    and sp: "spent = totalSpent (categoryTransactions cat
                       (transactionsByDateRange (transactions w) userId s e))"
    and am: "amt = parseFloat (b_amount budget)"
    and w2: "w2 = w\<lparr>trace := trace w @ [GetBudgetByCategory userId cat month year,
                       GetTransactionsByDateRange userId (Some s) (Some e)]\<rparr>"
  shows "checkBudgetAlerts env userId cat month year w =
     (if num_ge (percentage spent amt) (Fin 80) \<and> num_lt (percentage spent amt) (Fin 100)
      then w2\<lparr>trace := trace w2 @ [CreateNotification (alert_notification env userId cat spent amt)],
              notifications := notifications w
                 @ [newNotification env (alert_notification env userId cat spent amt) w2]\<rparr>
      else if num_ge (percentage spent amt) (Fin 100)
      then w2\<lparr>trace := trace w2 @ [CreateNotification (exceeded_notification env userId cat spent amt)],
              notifications := notifications w
                 @ [newNotification env (exceeded_notification env userId cat spent amt) w2]\<rparr>
      else w2)"
  by (simp add: checkBudgetAlerts_def checkBudgetAlerts_try_found[OF assms])

text \<open>The same evaluation when the insert of the notification, its third call, fails.\<close>

lemma checkBudgetAlerts_try_insert_fails:
  assumes nf0: "\<not> fails env (length (trace w))"
    and nf1: "\<not> fails env (length (trace w) + 1)"
    and f2: "fails env (length (trace w) + 2)"
    and bud: "find (budget_matches userId cat month year) (budgets w) = Some budget"
    and sd: "newDate env year (month - 1) 1 0 0 0 = Some s"
    and ed: "newDate env year month 0 23 59 59 = Some e"
    and sp: "spent = totalSpent (categoryTransactions cat
                       (transactionsByDateRange (transactions w) userId s e))"
    and am: "amt = parseFloat (b_amount budget)"
    and ge: "num_ge (percentage spent amt) (Fin 80)"
  shows "fst (checkBudgetAlerts_try env userId cat month year w) = Inl DbError"
proof -
  from ge have "num_lt (percentage spent amt) (Fin 100) \<or> num_ge (percentage spent amt) (Fin 100)"
    by (auto simp: num_ge_def)
  then show ?thesis
    using nf0 nf1 f2 ge
    by (auto simp: checkBudgetAlerts_try_def getBudgetByCategory_eq bud computeTotalSpent_eq
          sd ed createNotification_eq sp am Let_def)
qed

text \<open>Whatever fails, the evaluator touches no table but the notifications.\<close>

lemma checkBudgetAlerts_try_tables:
  "transactions (snd (checkBudgetAlerts_try env userId cat month year w)) = transactions w
   \<and> budgets (snd (checkBudgetAlerts_try env userId cat month year w)) = budgets w
   \<and> goals (snd (checkBudgetAlerts_try env userId cat month year w)) = goals w
   \<and> console (snd (checkBudgetAlerts_try env userId cat month year w)) = console w"
  by (simp add: checkBudgetAlerts_try_def getBudgetByCategory_eq computeTotalSpent_eq
        createNotification_eq Let_def split: option.splits)

lemma checkBudgetAlerts_tables:
  "transactions (checkBudgetAlerts env userId cat month year w) = transactions w
   \<and> budgets (checkBudgetAlerts env userId cat month year w) = budgets w
   \<and> goals (checkBudgetAlerts env userId cat month year w) = goals w"
  using checkBudgetAlerts_try_tables[of env userId cat month year w]
  by (cases "checkBudgetAlerts_try env userId cat month year w")
     (auto simp: checkBudgetAlerts_def split: sum.splits)

lemma checkBudgetAlerts_console:
  "console (checkBudgetAlerts env userId cat month year w) =
     (case fst (checkBudgetAlerts_try env userId cat month year w) of
        Inl e \<Rightarrow> console w @ [(''Error checking budget alerts:'', e)]
      | Inr u \<Rightarrow> console w)"
  using checkBudgetAlerts_try_tables[of env userId cat month year w]
  by (cases "checkBudgetAlerts_try env userId cat month year w")
     (auto simp: checkBudgetAlerts_def split: sum.splits)

lemma checkBudgetAlerts_try_trace:
  "\<exists>rest. trace (snd (checkBudgetAlerts_try env userId cat month year w)) =
            trace w @ GetBudgetByCategory userId cat month year # rest
          \<and> filter is_budget_lookup rest = []"
  by (simp add: checkBudgetAlerts_try_def getBudgetByCategory_eq computeTotalSpent_eq
        createNotification_eq Let_def split: option.splits)

lemma checkBudgetAlerts_trace:
  "\<exists>rest. trace (checkBudgetAlerts env userId cat month year w) =
            trace w @ GetBudgetByCategory userId cat month year # rest
          \<and> filter is_budget_lookup rest = []"
  using checkBudgetAlerts_try_trace[of env userId cat month year w]
  by (cases "checkBudgetAlerts_try env userId cat month year w")
     (auto simp: checkBudgetAlerts_def split: sum.splits)

text \<open>
  A request that creates an expense while the budget of its category stands at 80 percent
  or more, the new row counted, adds one notification at the end of the table.
\<close>

lemma post_expense_in_band:
  assumes ty: "it_type tx = expense"
    and nf: "\<forall>k<4. \<not> fails env (length (trace w) + k)"
    and ev: "evaluated_percentage env uid (it_category tx)
               (getMonth env (now env 0) + 1) (getFullYear env (now env 1))
               (w\<lparr>transactions := transactions w @ [newTransaction env uid tx w]\<rparr>) = Some p"
    and ge: "num_ge p (Fin 80)"
  shows "\<exists>n. notifications (snd (post_api_transactions env (Some uid) (Some tx) w))
               = notifications w @ [n]
             \<and> n_userId n = uid \<and> n_type n = ''warning'' \<and> \<not> n_isRead n"
proof -
  let ?m = "getMonth env (now env 0) + 1" and ?y = "getFullYear env (now env 1)"
  let ?cat = "it_category tx"
  let ?w1 = "w\<lparr>trace := trace w @ [CreateTransaction uid tx],
                transactions := transactions w @ [newTransaction env uid tx w]\<rparr>"
  from nf have f0: "\<not> fails env (length (trace w))"
    and f1: "\<not> fails env (length (trace ?w1))"
    and f2: "\<not> fails env (length (trace ?w1) + 1)"
    and f3: "\<not> fails env (length (trace ?w1) + 2)"
    using nf[rule_format, of 0] nf[rule_format, of 1] nf[rule_format, of 2] nf[rule_format, of 3]
    by (simp_all add: numeral_2_eq_2 numeral_3_eq_3)
  from ev obtain budget s e where
      bud: "find (budget_matches uid ?cat ?m ?y) (budgets ?w1) = Some budget"
    and sd: "newDate env ?y (?m - 1) 1 0 0 0 = Some s"
    and ed: "newDate env ?y ?m 0 23 59 59 = Some e"
    and p: "p = percentage (totalSpent (categoryTransactions ?cat
                  (transactionsByDateRange (transactions ?w1) uid s e)))
                (parseFloat (b_amount budget))"
    by (auto simp: evaluated_percentage_def split: option.splits)
  let ?pc = "percentage (totalSpent (categoryTransactions ?cat
                  (transactionsByDateRange (transactions ?w1) uid s e)))
                (parseFloat (b_amount budget))"
  note found = checkBudgetAlerts_found[OF f1 f2 f3 bud sd ed refl refl refl]
  from ge p have ge': "num_ge ?pc (Fin 80)" by simp
  show ?thesis
  proof (cases "num_lt ?pc (Fin 100)")
    case True
    with ge' ty f0 show ?thesis
      by (simp add: post_api_transactions_eq found newNotification_def
            alert_notification_def del: One_nat_def)
  next
    case False
    with ge' have "num_ge ?pc (Fin 100)" by (simp add: num_ge_def)
    with False ty f0 show ?thesis
      by (simp add: post_api_transactions_eq found newNotification_def
            exceeded_notification_def del: One_nat_def)
  qed
qed

text \<open>Day 0 of the next month is the last day of the month.\<close>

lemma div_step:
  fixes a k :: int
  assumes k: "0 < k"
  shows "(a + 1) div k = a div k + (if (a + 1) mod k = 0 then 1 else 0)"
proof -
  define q r where "q = a div k" and "r = a mod k"
  have a: "a = k * q + r" and r0: "0 \<le> r" and rk: "r < k"
    using k by (simp_all add: q_def r_def)
  show ?thesis
  proof (cases "r + 1 < k")
    case True
    have e: "a + 1 = k * q + (r + 1)" using a by simp
    have "(a + 1) div k = q"
      using int_div_pos_eq[OF e] r0 True by simp
    moreover have "(a + 1) mod k = r + 1"
      using int_mod_pos_eq[OF e] r0 True by simp
    ultimately show ?thesis using r0 by (simp add: q_def)
  next
    case False
    with rk have rk1: "r + 1 = k" by simp
    have e: "a + 1 = k * (q + 1) + 0" using a rk1 by (simp add: algebra_simps)
    have "(a + 1) div k = q + 1"
      using int_div_pos_eq[OF e] k by simp
    moreover have "(a + 1) mod k = 0"
      using int_mod_pos_eq[OF e] k by simp
    ultimately show ?thesis by (simp add: q_def)
  qed
qed

lemma DayFromYear_next: "DayFromYear (y + 1) = DayFromYear y + DaysInYear y"
proof -
  have m4: "(y - 1968) mod 4 = y mod 4"
    and m100: "(y - 1900) mod 100 = y mod 100"
    and m400: "(y - 1600) mod 400 = y mod 400"
    by (subst mod_diff_right_eq[symmetric], simp)+
  have d4: "(y - 1968) div 4 = (y - 1969) div 4 + (if y mod 4 = 0 then 1 else 0)"
    using div_step[of 4 "y - 1969"] m4 by simp
  have d100: "(y - 1900) div 100 = (y - 1901) div 100 + (if y mod 100 = 0 then 1 else 0)"
    using div_step[of 100 "y - 1901"] m100 by simp
  have d400: "(y - 1600) div 400 = (y - 1601) div 400 + (if y mod 400 = 0 then 1 else 0)"
    using div_step[of 400 "y - 1601"] m400 by simp
  have c1: "y mod 4 = 0" if "y mod 100 = 0"
  proof -
    from that have "100 dvd y" by (simp add: mod_eq_0_iff_dvd)
    moreover have "(4::int) dvd 100" by simp
    ultimately have "4 dvd y" by (rule dvd_trans[rotated])
    then show ?thesis by (simp add: mod_eq_0_iff_dvd)
  qed
  have c2: "y mod 100 = 0" if "y mod 400 = 0"
  proof -
    from that have "400 dvd y" by (simp add: mod_eq_0_iff_dvd)
    moreover have "(100::int) dvd 400" by simp
    ultimately have "100 dvd y" by (rule dvd_trans[rotated])
    then show ?thesis by (simp add: mod_eq_0_iff_dvd)
  qed
  have e: "DayFromYear (y + 1) =
      365 * (y - 1969) + (y - 1968) div 4 - (y - 1900) div 100 + (y - 1600) div 400"
    by (simp add: DayFromYear_def)
  show ?thesis
    unfolding e d4 d100 d400 using c1 c2
    by (auto simp: DayFromYear_def DaysInYear_def)
qed

lemma month_cases:
  assumes "0 \<le> m" "m \<le> 11"
  obtains "m = 0" | "m = 1" | "m = 2" | "m = 3" | "m = 4" | "m = 5"
        | "m = 6" | "m = 7" | "m = 8" | "m = 9" | "m = 10" | "m = (11::int)"
proof -
  from assms have "m = 0 \<or> m = 1 \<or> m = 2 \<or> m = 3 \<or> m = 4 \<or> m = 5
      \<or> m = 6 \<or> m = 7 \<or> m = 8 \<or> m = 9 \<or> m = 10 \<or> m = 11"
    by arith
  then show thesis using that by blast
qed



text \<open>
  \<open>YearFromTime\<close> meets its specification in ECMA-262: it is the year \<open>y\<close> with
  \<open>DayFromYear y \<le> Day t < DayFromYear (y + 1)\<close>.
\<close>

lemma div_bounds:
  fixes x k :: int
  assumes "0 < k"
  shows "k * (x div k) \<le> x" "x < k * (x div k) + k"
proof -
  have "x = k * (x div k) + x mod k" by simp
  moreover have "0 \<le> x mod k" "x mod k < k" using assms by simp_all
  ultimately show "k * (x div k) \<le> x" "x < k * (x div k) + k" by linarith+
qed

lemma DayFromYear_bounds:
  "146097 * (y - 1970) - 506 \<le> 400 * DayFromYear y"
  "400 * DayFromYear y \<le> 146097 * (y - 1970) + 589"
proof -
  define a b c where "a = (y - 1969) div 4" and "b = (y - 1901) div 100"
    and "c = (y - 1601) div 400"
  have a: "4 * a \<le> y - 1969" "y - 1969 < 4 * a + 4"
    using div_bounds[of 4 "y - 1969"] by (simp_all add: a_def)
  have b: "100 * b \<le> y - 1901" "y - 1901 < 100 * b + 100"
    using div_bounds[of 100 "y - 1901"] by (simp_all add: b_def)
  have c: "400 * c \<le> y - 1601" "y - 1601 < 400 * c + 400"
    using div_bounds[of 400 "y - 1601"] by (simp_all add: c_def)
  have d: "DayFromYear y = 365 * (y - 1970) + a - b + c"
    by (simp add: DayFromYear_def a_def b_def c_def)
  show "146097 * (y - 1970) - 506 \<le> 400 * DayFromYear y"
    unfolding d using a b c by (simp add: algebra_simps)
  show "400 * DayFromYear y \<le> 146097 * (y - 1970) + 589"
    unfolding d using a b c by (simp add: algebra_simps)
qed

lemma YearFromTime_correct:
  "DayFromYear (YearFromTime t) \<le> Day t" "Day t < DayFromYear (YearFromTime t + 1)"
proof -
  define d n where "d = Day t" and "n = (400 * d) div 146097"
  have n: "146097 * n \<le> 400 * d" "400 * d < 146097 * n + 146097"
    using div_bounds[of 146097 "400 * d"] by (simp_all add: n_def)
  have lo: "DayFromYear (1970 + n - 1) \<le> d"
    using DayFromYear_bounds(2)[of "1970 + n - 1"] n by (simp add: algebra_simps)
  have hi: "d < DayFromYear (1970 + n + 1 + 1)"
    using DayFromYear_bounds(1)[of "1970 + n + 1 + 1"] n by (simp add: algebra_simps)
  have y: "YearFromTime t =
      (if d < DayFromYear (1970 + n) then 1970 + n - 1
       else if DayFromYear (1970 + n + 1) \<le> d then 1970 + n + 1 else 1970 + n)"
    by (simp add: YearFromTime_def Let_def d_def n_def)
  show "DayFromYear (YearFromTime t) \<le> Day t"
    unfolding y d_def[symmetric] using lo by auto
  show "Day t < DayFromYear (YearFromTime t + 1)"
    unfolding y d_def[symmetric] using hi by auto
qed
lemma DaysInYear_cases: "DaysInYear y = 365 \<or> DaysInYear y = 366"
  by (simp add: DaysInYear_def)

lemma DayFromYear_less:
  assumes "y < y'"
  shows "DayFromYear y < DayFromYear y'"
proof -
  have "DayFromYear y < DayFromYear (y + 1 + int k)" for k
  proof (induction k)
    case 0
    show ?case using DayFromYear_next[of y] DaysInYear_cases[of y] by auto
  next
    case (Suc k)
    have "DayFromYear (y + 1 + int (Suc k)) = DayFromYear (y + 1 + int k + 1)"
      by (simp add: algebra_simps)
    with Suc DayFromYear_next[of "y + 1 + int k"] DaysInYear_cases[of "y + 1 + int k"]
    show ?case by auto
  qed
  from this[of "nat (y' - y - 1)"] assms show ?thesis by simp
qed

lemma YearFromTime_unique:
  assumes "DayFromYear y \<le> Day t" "Day t < DayFromYear (y + 1)"
  shows "YearFromTime t = y"
proof (rule ccontr)
  assume ne: "YearFromTime t \<noteq> y"
  note c = YearFromTime_correct[of t]
  show False
  proof (cases "YearFromTime t < y")
    case True
    then have "YearFromTime t + 1 \<le> y" by simp
    then have "DayFromYear (YearFromTime t + 1) \<le> DayFromYear y"
      using DayFromYear_less[of "YearFromTime t + 1" y] by (cases "YearFromTime t + 1 = y") auto
    with c(2) assms(1) show False by simp
  next
    case False
    with ne have "y + 1 \<le> YearFromTime t" by simp
    then have "DayFromYear (y + 1) \<le> DayFromYear (YearFromTime t)"
      using DayFromYear_less[of "y + 1" "YearFromTime t"] by (cases "y + 1 = YearFromTime t") auto
    with c(1) assms(2) show False by simp
  qed
qed

text \<open>
  The fields of a time value built from a year, a month (0 to 11), a day of that month and
  a time within the day are these again.
\<close>

lemma Day_MakeDate:
  assumes "0 \<le> tm" "tm < msPerDay"
  shows "Day (MakeDate day tm) = day" "TimeWithinDay (MakeDate day tm) = tm"
  using assms by (simp_all add: Day_def TimeWithinDay_def MakeDate_def msPerDay_def)

lemma fields_of_MakeDay:
  assumes m: "0 \<le> m" "m \<le> 11" and d: "1 \<le> d" "d \<le> DaysInMonth y m"
    and tm: "0 \<le> tm" "tm < msPerDay"
  shows "YearFromTime (MakeDate (MakeDay y m d) tm) = y"
    and "MonthFromTime (MakeDate (MakeDay y m d) tm) = m"
    and "DateFromTime (MakeDate (MakeDay y m d) tm) = d"
proof -
  let ?t = "MakeDate (MakeDay y m d) tm"
  let ?l = "if DaysInYear y = 366 then 1 else 0 :: int"
  have day: "Day ?t = DayFromYear y + days_before_month ?l m + d - 1"
    using m by (simp add: Day_MakeDate[OF tm] MakeDay_def)
  have rng: "0 \<le> days_before_month ?l m + d - 1"
    "days_before_month ?l m + d - 1 < DaysInYear y"
    using m(1,2) d DaysInYear_cases[of y]
    by (cases m rule: month_cases; auto simp: days_before_month_def DaysInMonth_def)+
  have y: "YearFromTime ?t = y"
    by (rule YearFromTime_unique) (use day rng DayFromYear_next[of y] in auto)
  have l: "InLeapYear ?t = ?l"
    by (simp add: InLeapYear_def y)
  have w: "DayWithinYear ?t = days_before_month ?l m + d - 1"
    by (simp add: DayWithinYear_def y day)
  have mo: "MonthFromTime ?t = m"
    unfolding MonthFromTime_def l w Let_def
    using m(1,2) d DaysInYear_cases[of y]
    by (cases m rule: month_cases; auto simp: days_before_month_def DaysInMonth_def)
  show "YearFromTime ?t = y" by (rule y)
  show "MonthFromTime ?t = m" by (rule mo)
  show "DateFromTime ?t = d"
    by (simp add: DateFromTime_def l w mo)
qed

lemma MakeDay_normal: "MakeDay y m d = MakeDay (y + m div 12) (m mod 12) d"
  by (simp add: MakeDay_def)

lemma DaysInMonth_ge_28:
  assumes "0 \<le> m" "m \<le> 11"
  shows "28 \<le> DaysInMonth y m"
  using assms by (cases m rule: month_cases) (simp_all add: DaysInMonth_def)

text \<open>The time set by \<open>setMonth\<close>, and the local fields of its result.\<close>

lemma setMonth_fields:
  assumes "lt = LocalTime env t" and "1 \<le> DateFromTime lt" and "DateFromTime lt \<le> 28"
    and "start = MakeDate (MakeDay (YearFromTime lt) month (DateFromTime lt)) (TimeWithinDay lt)"
  shows "setMonth env t month = TimeClip (UTC env start)"
    and "YearFromTime start = YearFromTime lt + month div 12"
    and "MonthFromTime start = month mod 12"
    and "DateFromTime start = DateFromTime lt"
    and "TimeWithinDay start = TimeWithinDay lt"
proof -
  have tm: "0 \<le> TimeWithinDay lt" "TimeWithinDay lt < msPerDay"
    by (simp_all add: TimeWithinDay_def msPerDay_def)
  have m: "0 \<le> month mod 12" "month mod 12 \<le> 11"
    by simp_all
  have d: "DateFromTime lt \<le> DaysInMonth (YearFromTime lt + month div 12) (month mod 12)"
    using DaysInMonth_ge_28[OF m] assms(3) by (rule order_trans[rotated])
  have st: "start = MakeDate (MakeDay (YearFromTime lt + month div 12) (month mod 12)
                      (DateFromTime lt)) (TimeWithinDay lt)"
    unfolding assms(4) by (subst MakeDay_normal) simp
  show "setMonth env t month = TimeClip (UTC env start)"
    by (simp add: setMonth_def assms(1,4) Let_def)
  show "YearFromTime start = YearFromTime lt + month div 12"
    unfolding st by (rule fields_of_MakeDay(1)[OF m assms(2) d tm])
  show "MonthFromTime start = month mod 12"
    unfolding st by (rule fields_of_MakeDay(2)[OF m assms(2) d tm])
  show "DateFromTime start = DateFromTime lt"
    unfolding st by (rule fields_of_MakeDay(3)[OF m assms(2) d tm])
  show "TimeWithinDay start = TimeWithinDay lt"
    unfolding st by (rule Day_MakeDate(2)[OF tm])
qed

lemma DateFromTime_ge_1: "1 \<le> DateFromTime t"
proof -
  have w: "0 \<le> DayWithinYear t"
    using YearFromTime_correct(1)[of t] by (simp add: DayWithinYear_def)
  have l: "InLeapYear t = 0 \<or> InLeapYear t = 1"
    by (simp add: InLeapYear_def)
  define dw where "dw = DayWithinYear t"
  define lp where "lp = InLeapYear t"
  show ?thesis
    unfolding DateFromTime_def MonthFromTime_def Let_def dw_def[symmetric] lp_def[symmetric]
    using w l unfolding dw_def[symmetric] lp_def[symmetric]
    by (auto simp: days_before_month_def)
qed


text \<open>Sums over the groups of a \<^verbatim>\<open>GROUP BY\<close> add up to the sum over all rows.\<close>

lemma sum_list_single:
  fixes c :: int
  assumes "distinct ks" "a \<in> set ks"
  shows "sum_list (map (\<lambda>k. if a = k then c else 0) ks) = c"
  using assms
proof (induction ks)
  case Nil
  then show ?case by simp
next
  case (Cons k ks)
  show ?case
  proof (cases "a = k")
    case True
    with Cons.prems have "a \<notin> set ks" by simp
    then have "sum_list (map (\<lambda>k. if a = k then c else 0) ks) = 0"
      by (induction ks) auto
    with True show ?thesis by simp
  next
    case False
    with Cons show ?thesis by simp
  qed
qed

lemma group_sum:
  fixes f :: "'a \<Rightarrow> int"
  assumes "distinct ks" "key ` set xs \<subseteq> set ks"
  shows "sum_list (map (\<lambda>k. sum_list (map f (filter (\<lambda>x. key x = k) xs))) ks)
         = sum_list (map f xs)"
  using assms(2)
proof (induction xs)
  case Nil
  then show ?case by simp
next
  case (Cons x xs)
  then have in_ks: "key x \<in> set ks" and sub: "key ` set xs \<subseteq> set ks"
    by auto
  have "sum_list (map (\<lambda>k. sum_list (map f (filter (\<lambda>x. key x = k) (x # xs)))) ks)
        = sum_list (map (\<lambda>k. (if key x = k then f x else 0)
                              + sum_list (map f (filter (\<lambda>x. key x = k) xs))) ks)"
    by (rule arg_cong[where f = sum_list], rule map_cong) auto
  also have "\<dots> = sum_list (map (\<lambda>k. if key x = k then f x else 0) ks)
                  + sum_list (map (\<lambda>k. sum_list (map f (filter (\<lambda>x. key x = k) xs))) ks)"
    by (simp add: sum_list_addf)
  also have "\<dots> = f x + sum_list (map f xs)"
    using sum_list_single[OF assms(1) in_ks] Cons.IH[OF sub] by simp
  finally show ?case by simp
qed

lemma spendingByCategory_keys:
  "map fst (spendingByCategory ts userId s e) =
     remdups (map t_category (filter (\<lambda>t. in_range userId s e t \<and> t_type t = expense) ts))"
  by (simp add: spendingByCategory_def Let_def comp_def)

lemma spendingByCategory_row:
  assumes "(c, tot) \<in> set (spendingByCategory ts userId s e)"
  shows "tot = sum_list (map t_amount
           (filter (\<lambda>t. t_userId t = userId \<and> t_type t = expense \<and> s \<le> t_date t
                        \<and> t_date t \<le> e \<and> t_category t = c) ts))"
proof -
  have "filter (\<lambda>t. t_category t = c)
          (filter (\<lambda>t. in_range userId s e t \<and> t_type t = expense) ts)
        = filter (\<lambda>t. t_userId t = userId \<and> t_type t = expense \<and> s \<le> t_date t
                        \<and> t_date t \<le> e \<and> t_category t = c) ts"
    by (auto simp: in_range_def intro: filter_cong)
  with assms show ?thesis
    by (auto simp: spendingByCategory_def Let_def)
qed

lemma spendingByCategory_present:
  "c \<in> set (map fst (spendingByCategory ts userId s e)) \<longleftrightarrow>
     filter (\<lambda>t. t_userId t = userId \<and> t_type t = expense \<and> s \<le> t_date t
                  \<and> t_date t \<le> e \<and> t_category t = c) ts \<noteq> []"
  by (auto simp: spendingByCategory_keys filter_empty_conv in_range_def)

lemma monthlyTrends_keys:
  "map tr_month (monthlyTrends ts userId s e) =
     sort (remdups (map (\<lambda>t. to_char_YYYY_MM (t_date t)) (filter (in_range userId s e) ts)))"
  by (simp add: monthlyTrends_def Let_def comp_def)

lemma monthlyTrends_row:
  assumes "r \<in> set (monthlyTrends ts userId s e)"
  shows "tr_income r = sum_list (map t_amount
           (filter (\<lambda>t. t_userId t = userId \<and> s \<le> t_date t \<and> t_date t \<le> e
                        \<and> to_char_YYYY_MM (t_date t) = tr_month r \<and> t_type t = income) ts))
       \<and> tr_expenses r = sum_list (map t_amount
           (filter (\<lambda>t. t_userId t = userId \<and> s \<le> t_date t \<and> t_date t \<le> e
                        \<and> to_char_YYYY_MM (t_date t) = tr_month r \<and> t_type t = expense) ts))"
proof -
  have cond: "sum_list (map (\<lambda>t. if t_type t = ty then t_amount t else 0) xs)
              = sum_list (map t_amount (filter (\<lambda>t. t_type t = ty) xs))" for ty xs
    by (induction xs) auto
  from assms show ?thesis
    by (auto simp: monthlyTrends_def Let_def cond in_range_def)
qed

lemma monthlyTrends_total:
  "sum_list (map (\<lambda>r. tr_income r + tr_expenses r) (monthlyTrends ts userId s e))
   = sum_list (map t_amount (filter (in_range userId s e) ts))"
proof -
  let ?rows = "filter (in_range userId s e) ts"
  let ?key = "\<lambda>t. to_char_YYYY_MM (t_date t)"
  let ?ks = "sort (remdups (map ?key ?rows))"
  have both: "sum_list (map (\<lambda>t. if t_type t = income then t_amount t else 0) xs)
            + sum_list (map (\<lambda>t. if t_type t = expense then t_amount t else 0) xs)
            = sum_list (map t_amount xs)" for xs
  proof (induction xs)
    case Nil
    then show ?case by simp
  next
    case (Cons x xs)
    then show ?case by (cases "t_type x") auto
  qed
  have "sum_list (map (\<lambda>r. tr_income r + tr_expenses r) (monthlyTrends ts userId s e))
        = sum_list (map (\<lambda>k. sum_list (map t_amount (filter (\<lambda>t. ?key t = k) ?rows))) ?ks)"
    by (simp add: monthlyTrends_def Let_def comp_def both)
  also have "\<dots> = sum_list (map t_amount ?rows)"
    by (rule group_sum) auto
  finally show ?thesis .
qed

lemma getSpendingByCategory_eq:
  "getSpendingByCategory env userId month year w =
     (if fails env (length (trace w)) then Inl DbError
      else (case (newDate env year (month - 1) 1 0 0 0, newDate env year month 0 23 59 59) of
              (Some s, Some e) \<Rightarrow> Inr (spendingByCategory (transactions w) userId s e)
            | _ \<Rightarrow> Inl RangeError),
      w\<lparr>trace := trace w @ [GetSpendingByCategory userId month year]\<rparr>)"
  by (simp add: getSpendingByCategory_def storage_call_def Let_def split: option.splits)

lemma getMonthlyTrends_eq:
  "getMonthlyTrends env userId months w =
     (if fails env (length (trace w)) then Inl DbError
      else (case setMonth env (now env 1) (getMonth env (now env 0) - months) of
              Some s \<Rightarrow> Inr (monthlyTrends (transactions w) userId s (now env 0))
            | None \<Rightarrow> Inl RangeError),
      w\<lparr>trace := trace w @ [GetMonthlyTrends userId months]\<rparr>)"
  by (simp add: getMonthlyTrends_def storage_call_def Let_def del: One_nat_def
        split: option.splits)

text \<open>The update and delete routes, when the storage call does not fail.\<close>

lemma find_map_update:
  assumes "\<And>x. key (f x) = key x"
  shows "find (\<lambda>x. key x = i) (map (\<lambda>x. if key x = i then f x else x) xs)
         = map_option f (find (\<lambda>x. key x = i) xs)"
  by (induction xs) (simp_all add: assms)

lemma set_keeps_id:
  "t_id (set_transaction pt t) = t_id t" "b_id (set_budget pb b) = b_id b"
  "g_id (set_goal pg g) = g_id g"
  by (simp_all add: set_transaction_def set_budget_def set_goal_def)

lemma any_row_iff: "0 < length (filter P xs) \<longleftrightarrow> (\<exists>x\<in>set xs. P x)"
  by (simp add: filter_empty_conv)

lemma put_api_transactions_eq:
  assumes "\<not> fails env (length (trace w))"
  shows "put_api_transactions env (Some caller) i (Some p) w =
     ((case find (\<lambda>t. t_id t = i) (transactions w) of
         None \<Rightarrow> (404, Message ''Transaction not found'')
       | Some t \<Rightarrow> (200, TransactionJson (set_transaction p t))),
      w\<lparr>trace := trace w @ [UpdateTransaction i p],
        transactions := map (\<lambda>t. if t_id t = i then set_transaction p t else t)
                          (transactions w)\<rparr>)"
  using assms
  by (simp add: put_api_transactions_def updateTransaction_def storage_call_def Let_def
        find_map_update[where key = t_id and f = "set_transaction p", OF set_keeps_id(1)]
        split: option.splits)

lemma delete_api_transactions_eq:
  assumes "\<not> fails env (length (trace w))"
  shows "delete_api_transactions env (Some caller) i w =
     (if \<exists>t\<in>set (transactions w). t_id t = i then (204, NoBody)
      else (404, Message ''Transaction not found''),
      w\<lparr>trace := trace w @ [DeleteTransaction i],
        transactions := filter (\<lambda>t. t_id t \<noteq> i) (transactions w)\<rparr>)"
  using assms
  by (simp add: delete_api_transactions_def deleteTransaction_def storage_call_def
        filter_empty_conv)

lemma put_api_budgets_eq:
  assumes "\<not> fails env (length (trace w))"
  shows "put_api_budgets env (Some caller) i (Some p) w =
     ((case find (\<lambda>b. b_id b = i) (budgets w) of
         None \<Rightarrow> (404, Message ''Budget not found'')
       | Some b \<Rightarrow> (200, BudgetJson (set_budget p b))),
      w\<lparr>trace := trace w @ [UpdateBudget i p],
        budgets := map (\<lambda>b. if b_id b = i then set_budget p b else b) (budgets w)\<rparr>)"
  using assms
  by (simp add: put_api_budgets_def updateBudget_def storage_call_def Let_def
        find_map_update[where key = b_id and f = "set_budget p", OF set_keeps_id(2)]
        split: option.splits)

lemma delete_api_budgets_eq:
  assumes "\<not> fails env (length (trace w))"
  shows "delete_api_budgets env (Some caller) i w =
     (if \<exists>b\<in>set (budgets w). b_id b = i then (204, NoBody)
      else (404, Message ''Budget not found''),
      w\<lparr>trace := trace w @ [DeleteBudget i],
        budgets := filter (\<lambda>b. b_id b \<noteq> i) (budgets w)\<rparr>)"
  using assms
  by (simp add: delete_api_budgets_def deleteBudget_def storage_call_def filter_empty_conv)

lemma put_api_goals_eq:
  assumes "\<not> fails env (length (trace w))"
  shows "put_api_goals env (Some caller) i (Some p) w =
     ((case find (\<lambda>g. g_id g = i) (goals w) of
         None \<Rightarrow> (404, Message ''Goal not found'')
       | Some g \<Rightarrow> (200, GoalJson (set_goal p g))),
      w\<lparr>trace := trace w @ [UpdateGoal i p],
        goals := map (\<lambda>g. if g_id g = i then set_goal p g else g) (goals w)\<rparr>)"
  using assms
  by (simp add: put_api_goals_def updateGoal_def storage_call_def Let_def
        find_map_update[where key = g_id and f = "set_goal p", OF set_keeps_id(3)]
        split: option.splits)

lemma delete_api_goals_eq:
  assumes "\<not> fails env (length (trace w))"
  shows "delete_api_goals env (Some caller) i w =
     (if \<exists>g\<in>set (goals w). g_id g = i then (204, NoBody)
      else (404, Message ''Goal not found''),
      w\<lparr>trace := trace w @ [DeleteGoal i],
        goals := filter (\<lambda>g. g_id g \<noteq> i) (goals w)\<rparr>)"
  using assms
  by (simp add: delete_api_goals_def deleteGoal_def storage_call_def filter_empty_conv)

text \<open>\<open>floor_log2\<close> meets its specification.\<close>

lemma bit_length_bounds:
  assumes "0 < n"
  shows "2 ^ (bit_length n - 1) \<le> n" "n < 2 ^ bit_length n"
  using assms
proof (induction n rule: bit_length.induct)
  case (1 n)
  {
    case 1
    show ?case
    proof (cases "n div 2 = 0")
      case True
      with \<open>0 < n\<close> show ?thesis
        by (simp add: bit_length.simps[of n] bit_length.simps[of 0])
    next
      case False
      then have p: "0 < n div 2" by simp
      from "1.IH"(1)[OF _ p] \<open>0 < n\<close> have "2 ^ (bit_length (n div 2) - 1) \<le> n div 2" by simp
      moreover have "0 < bit_length (n div 2)"
        using p by (simp add: bit_length.simps[of "n div 2"])
      ultimately have "2 ^ bit_length (n div 2) \<le> 2 * (n div 2)"
        by (cases "bit_length (n div 2)") simp_all
      also have "\<dots> \<le> n" by simp
      finally show ?thesis
        using \<open>0 < n\<close> by (simp add: bit_length.simps[of n])
    qed
  next
    case 2
    show ?case
    proof (cases "n div 2 = 0")
      case True
      with \<open>0 < n\<close> have "n = 1" by (simp add: div_eq_0_iff)
      then show ?thesis
        by (simp add: bit_length.simps[of "Suc 0"] bit_length.simps[of 0])
    next
      case False
      then have p: "0 < n div 2" by simp
      from "1.IH"(2)[OF _ p] \<open>0 < n\<close> have "n div 2 < 2 ^ bit_length (n div 2)" by simp
      then have "n < 2 * 2 ^ bit_length (n div 2)" by simp
      then show ?thesis
        using \<open>0 < n\<close> by (simp add: bit_length.simps[of n])
    qed
  }
qed

lemma floor_log2_correct:
  assumes "0 < x"
  shows "pow2 (floor_log2 x) \<le> x" "x < pow2 (floor_log2 x + 1)"
proof -
  show "pow2 (floor_log2 x) \<le> x"
  proof (cases "1 \<le> x")
    case True
    define n where "n = nat \<lfloor>x\<rfloor>"
    from True have n: "0 < n" "real n \<le> x"
      by (simp_all add: n_def)
    have "(2::real) ^ (bit_length n - 1) \<le> real n"
      using bit_length_bounds(1)[OF n(1)]
      by (metis of_nat_le_iff of_nat_numeral of_nat_power)
    with n(2) have "2 ^ (bit_length n - 1) \<le> x" by linarith
    moreover have "0 < bit_length n"
      using n(1) by (simp add: bit_length.simps[of n])
    ultimately show ?thesis
      using True by (simp add: floor_log2_def pow2_def n_def[symmetric] nat_diff_distrib)
  next
    case False
    define n where "n = nat (\<lceil>1 / x\<rceil> - 1)"
    from False assms have y: "1 < 1 / x" by simp
    then have c: "2 \<le> \<lceil>1 / x\<rceil>" by linarith
    then have n: "0 < n" "1 / x \<le> real n + 1"
      by (simp_all add: n_def) linarith
    have "Suc n \<le> 2 ^ bit_length n"
      using bit_length_bounds(2)[OF n(1)] by simp
    then have "real (Suc n) \<le> real (2 ^ bit_length n)"
      by (simp only: of_nat_le_iff)
    then have "real n + 1 \<le> 2 ^ bit_length n" by simp
    with n(2) have "1 / x \<le> 2 ^ bit_length n" by linarith
    with assms have "1 / 2 ^ bit_length n \<le> x"
      by (simp add: field_simps)
    moreover have "0 < bit_length n"
      using n(1) by (simp add: bit_length.simps[of n])
    ultimately show ?thesis
      using False by (simp add: floor_log2_def pow2_def n_def[symmetric])
  qed
  show "x < pow2 (floor_log2 x + 1)"
  proof (cases "1 \<le> x")
    case True
    define n where "n = nat \<lfloor>x\<rfloor>"
    from True have n: "0 < n" "x < real n + 1"
      by (simp_all add: n_def) linarith?
    have "Suc n \<le> 2 ^ bit_length n"
      using bit_length_bounds(2)[OF n(1)] by simp
    then have "real (Suc n) \<le> real (2 ^ bit_length n)"
      by (simp only: of_nat_le_iff)
    then have "real n + 1 \<le> 2 ^ bit_length n" by simp
    with n(2) have "x < 2 ^ bit_length n" by linarith
    moreover have "0 < bit_length n"
      using n(1) by (simp add: bit_length.simps[of n])
    ultimately show ?thesis
      using True by (simp add: floor_log2_def pow2_def n_def[symmetric])
  next
    case False
    define n where "n = nat (\<lceil>1 / x\<rceil> - 1)"
    from False assms have y: "1 < 1 / x" by simp
    then have c: "2 \<le> \<lceil>1 / x\<rceil>" by linarith
    then have n: "0 < n" "real n < 1 / x"
      by (simp_all add: n_def) linarith?
    have "(2::real) ^ (bit_length n - 1) \<le> real n"
      using bit_length_bounds(1)[OF n(1)]
      by (metis of_nat_le_iff of_nat_numeral of_nat_power)
    with n(2) have "2 ^ (bit_length n - 1) < 1 / x" by linarith
    with assms have lt: "x < 1 / 2 ^ (bit_length n - 1)"
      by (simp add: field_simps)
    have pos: "0 < bit_length n"
      using n(1) by (simp add: bit_length.simps[of n])
    show ?thesis
    proof (cases "bit_length n = 1")
      case True
      with lt False show ?thesis
        by (simp add: floor_log2_def pow2_def n_def[symmetric])
    next
      case False
      with pos have "1 < bit_length n" by simp
      then have "nat (int (bit_length n) - 1) = bit_length n - 1" by simp
      with lt \<open>\<not> 1 \<le> x\<close> \<open>1 < bit_length n\<close> show ?thesis
        by (simp add: floor_log2_def pow2_def n_def[symmetric])
    qed
  qed
qed

lemmas number_eval =
  round64_def floor_log2_def round_half_even_def pow2_def bit_length.simps Let_def
  num_div_def num_mul_def num_ge_def num_sub_def signed_inf_def signed_zero_def
  percentage_def parseFloat_def

lemmas date_eval =
  msPerDay_def Day_def TimeWithinDay_def DaysInYear_def DayFromYear_def YearFromTime_def
  InLeapYear_def DayWithinYear_def days_before_month_def MonthFromTime_def DateFromTime_def
  MakeDay_def MakeTime_def MakeDate_def TimeClip_def Let_def

lemma env0_simps:
  "now env0 k = 1710496800000" "localTZA env0 t u = 19800000" "\<not> fails env0 k"
  "gen_random_uuid env0 k = ''row-'' @ digits10 k" "defaultNow env0 k = 1710496800000"
  "toLocaleString env0 = plain_digits" "numberToString env0 = plain_digits"
  by (simp_all add: env0_def)

lemma local_now0: "LocalTime env0 (now env0 k) = 1710516600000"
  by (simp add: LocalTime_def env0_simps)

lemma year_now0: "YearFromTime 1710516600000 = 2024"
  by (simp add: date_eval)

lemma month_now0: "MonthFromTime 1710516600000 = 2"
  by (simp add: date_eval)

lemma current_month0:
  "getMonth env0 (now env0 0) + 1 = 3" "getFullYear env0 (now env0 1) = 2024"
  by (simp_all add: getMonth_def getFullYear_def local_now0 year_now0 month_now0)

lemma march_days: "MakeDay 2024 2 1 = 19783" "MakeDay 2024 3 0 = 19813"
  by (simp_all add: date_eval)

lemma march_2024:
  "newDate env0 2024 (3 - 1) 1 0 0 0 = Some 1709231400000"
  "newDate env0 2024 3 0 23 59 59 = Some 1711909799000"
  by (simp_all add: newDate_def march_days MakeDate_def MakeTime_def msPerDay_def UTC_def
        env0_simps TimeClip_def)

lemma amounts0:
  "parseFloat 85000 = Fin 850" "parseFloat 20000 = Fin 200" "parseFloat 100000 = Fin 1000"
  by (simp_all add: number_eval)

lemma sums0:
  "round64 850 = Fin 850" "round64 200 = Fin 200" "round64 1050 = Fin 1050"
  by (simp_all add: number_eval)

lemma percentages0:
  "num_mul (num_div (Fin 850) (Fin 1000)) (Fin 100) = Fin 85"
  "num_mul (num_div (Fin 1050) (Fin 1000)) (Fin 100) = Fin 105"
  by (simp_all add: number_eval)

lemma spent_dinner:
  "totalSpent (categoryTransactions Food
     (transactionsByDateRange [dinner] ''alice'' 1709231400000 1711909799000)) = Fin 850"
  by (simp add: transactionsByDateRange_def in_range_def categoryTransactions_def
        totalSpent_def dinner_def amounts0 sums0)

lemma spent_dinner_party:
  "totalSpent (categoryTransactions Food
     (transactionsByDateRange [dinner, party] ''alice'' 1709231400000 1711909799000)) = Fin 1050"
  by (simp add: transactionsByDateRange_def in_range_def categoryTransactions_def
        totalSpent_def dinner_def party_def amounts0 sums0)

lemma texts0:
  "toFixed1 plain_digits (Fin 85) = ''85.0''"
  "plain_digits (Fin 850) = ''850''" "plain_digits (Fin 1000) = ''1000''"
  "plain_digits (Fin 50) = ''50''"
  "digits10 0 = ''0''" "digits10 (Suc (Suc 0)) = ''2''" "digits10 (Suc (Suc (Suc 0))) = ''3''"
  "digits10 (Suc (Suc (Suc (Suc 0)))) = ''4''"
  "digits10 (Suc (Suc (Suc (Suc (Suc (Suc (Suc 0))))))) = ''7''"
  by (simp_all add: toFixed1_def plain_digits_def digits10.simps digit_char_def)

text \<open>The two scenarios of the sample server, request by request.\<close>

lemma new_dinner: "newTransaction env0 ''alice'' tx_dinner world0 = dinner"
  by (simp add: newTransaction_def tx_dinner_def dinner_def world0_def env0_simps texts0)

lemma pct_after_dinner:
  "evaluated_percentage env0 ''alice'' Food 3 2024
     (world0\<lparr>transactions := transactions world0 @ [dinner]\<rparr>) = Some (Fin 85)"
  using march_2024
  by (simp add: evaluated_percentage_def world0_def food_budget_def budget_matches_def
        spent_dinner amounts0 percentage_def percentages0)

lemma post_dinner:
  "post_api_transactions env0 (Some ''alice'') (Some tx_dinner) world0 =
     ((201, TransactionJson dinner), after_dinner)"
proof -
  let ?w1 = "world0\<lparr>trace := trace world0 @ [CreateTransaction ''alice'' tx_dinner],
                     transactions := transactions world0 @ [dinner]\<rparr>"
  have bud: "find (budget_matches ''alice'' Food 3 2024) (budgets ?w1) = Some food_budget"
    by (simp add: world0_def food_budget_def budget_matches_def)
  have sp: "Fin 850 = totalSpent (categoryTransactions Food
              (transactionsByDateRange (transactions ?w1) ''alice'' 1709231400000 1711909799000))"
    by (simp add: world0_def spent_dinner)
  have am: "Fin 1000 = parseFloat (b_amount food_budget)"
    by (simp add: food_budget_def amounts0)
  have pc: "percentage (Fin 850) (Fin 1000) = Fin 85"
    by (simp add: percentage_def percentages0)
  note found = checkBudgetAlerts_found[OF env0_simps(3) env0_simps(3) env0_simps(3) bud
                 march_2024(1) march_2024(2) sp am refl]
  have cat: "it_category tx_dinner = Food" "it_type tx_dinner = expense"
    by (simp_all add: tx_dinner_def)
  have ev: "checkBudgetAlerts env0 ''alice'' Food 3 2024 ?w1 = after_dinner"
    by (subst found)
       (simp add: env0_simps pc num_ge_def after_dinner_def world0_def
          newNotification_def alert_notification_def texts0 numeral_3_eq_3)
  show ?thesis
    unfolding post_api_transactions_eq new_dinner current_month0 cat ev
    by (simp add: env0_simps)
qed

lemma new_party: "newTransaction env0 ''alice'' tx_party after_dinner = party"
  by (simp add: newTransaction_def tx_party_def party_def after_dinner_def env0_simps texts0)

lemma pct_after_party:
  "evaluated_percentage env0 ''alice'' Food 3 2024
     (after_dinner\<lparr>transactions := transactions after_dinner @ [party]\<rparr>) = Some (Fin 105)"
  using march_2024
  by (simp add: evaluated_percentage_def after_dinner_def food_budget_def budget_matches_def
        spent_dinner_party amounts0 percentage_def percentages0)

lemma post_party:
  "post_api_transactions env0 (Some ''alice'') (Some tx_party) after_dinner =
     ((201, TransactionJson party), after_party)"
proof -
  let ?w1 = "after_dinner\<lparr>trace := trace after_dinner @ [CreateTransaction ''alice'' tx_party],
                     transactions := transactions after_dinner @ [party]\<rparr>"
  have bud: "find (budget_matches ''alice'' Food 3 2024) (budgets ?w1) = Some food_budget"
    by (simp add: after_dinner_def food_budget_def budget_matches_def)
  have sp: "Fin 1050 = totalSpent (categoryTransactions Food
              (transactionsByDateRange (transactions ?w1) ''alice'' 1709231400000 1711909799000))"
    by (simp add: after_dinner_def spent_dinner_party)
  have am: "Fin 1000 = parseFloat (b_amount food_budget)"
    by (simp add: food_budget_def amounts0)
  have pc: "percentage (Fin 1050) (Fin 1000) = Fin 105"
    by (simp add: percentage_def percentages0)
  have sub: "num_sub (Fin 1050) (Fin 1000) = Fin 50"
    by (simp add: number_eval)
  note found = checkBudgetAlerts_found[OF env0_simps(3) env0_simps(3) env0_simps(3) bud
                 march_2024(1) march_2024(2) sp am refl]
  have cat: "it_category tx_party = Food" "it_type tx_party = expense"
    by (simp_all add: tx_party_def)
  have ev: "checkBudgetAlerts env0 ''alice'' Food 3 2024 ?w1 = after_party"
    by (subst found)
       (simp add: env0_simps pc sub num_ge_def after_party_def after_dinner_def
          newNotification_def exceeded_notification_def texts0)
  show ?thesis
    unfolding post_api_transactions_eq new_party current_month0 cat ev
    by (simp add: env0_simps)
qed

text \<open>The analytics of the sample server on the mixed table.\<close>

lemma window_start0:
  "setMonth env0 (now env0 1) (getMonth env0 (now env0 0) - 1) = Some 1707991200000"
proof -
  have d: "DateFromTime 1710516600000 = 15" by (simp add: date_eval)
  have t: "TimeWithinDay 1710516600000 = 55800000" by (simp add: date_eval)
  have m: "MakeDay 2024 1 15 = 19768" by (simp add: date_eval)
  have g: "getMonth env0 (now env0 0) - 1 = 1"
    by (simp add: getMonth_def local_now0 month_now0)
  show ?thesis
    unfolding g setMonth_def local_now0 Let_def year_now0 d t m
    by (simp add: MakeDate_def msPerDay_def UTC_def env0_simps TimeClip_def)
qed

lemma month_keys0:
  "to_char_YYYY_MM 1709800000000 = ''2024-03''"
  "to_char_YYYY_MM 1710000000000 = ''2024-03''"
  "to_char_YYYY_MM 1710200000000 = ''2024-03''"
  "to_char_YYYY_MM 1708430400000 = ''2024-02''"
  "to_char_YYYY_MM 1707566400000 = ''2024-02''"
proof -
  have y: "YearFromTime 1709800000000 = 2024" "YearFromTime 1710000000000 = 2024"
    "YearFromTime 1710200000000 = 2024" "YearFromTime 1708430400000 = 2024"
    "YearFromTime 1707566400000 = 2024"
    by (simp_all add: date_eval)
  have m: "MonthFromTime 1709800000000 = 2" "MonthFromTime 1710000000000 = 2"
    "MonthFromTime 1710200000000 = 2" "MonthFromTime 1708430400000 = 1"
    "MonthFromTime 1707566400000 = 1"
    by (simp_all add: date_eval)
  have d: "digits10 2024 = ''2024''" "digits10 3 = ''3''" "digits10 2 = ''2''"
    by (simp_all add: digits10.simps digit_char_def)
  show "to_char_YYYY_MM 1709800000000 = ''2024-03''"
    "to_char_YYYY_MM 1710000000000 = ''2024-03''"
    "to_char_YYYY_MM 1710200000000 = ''2024-03''"
    "to_char_YYYY_MM 1708430400000 = ''2024-02''"
    "to_char_YYYY_MM 1707566400000 = ''2024-02''"
    by (simp_all add: to_char_YYYY_MM_def y m d zero_pad_def)
qed

lemma window_mixed:
  "filter (in_range ''alice'' 1707991200000 1710496800000) (transactions world_mixed)
   = [salary, dinner, february, taxi]"
  by (simp add: world_mixed_def world0_def in_range_def lunch_def salary_def dinner_def
        february_def taxi_def snack_def early_def)

lemma window_mixed_plain:
  "filter (\<lambda>t. t_userId t = ''alice'' \<and> 1707991200000 \<le> t_date t
                \<and> t_date t \<le> now env0 0) (transactions world_mixed)
   = [salary, dinner, february, taxi]"
proof -
  have "filter (\<lambda>t. t_userId t = ''alice'' \<and> 1707991200000 \<le> t_date t
                \<and> t_date t \<le> now env0 0) (transactions world_mixed)
        = filter (in_range ''alice'' 1707991200000 1710496800000) (transactions world_mixed)"
    by (rule filter_cong) (simp_all add: in_range_def env0_simps)
  then show ?thesis by (simp only: window_mixed)
qed

lemma trends_mixed:
  "fst (getMonthlyTrends env0 ''alice'' 1 world_mixed) =
     Inr [\<lparr>tr_month = ''2024-02'', tr_income = 0, tr_expenses = 12000\<rparr>,
          \<lparr>tr_month = ''2024-03'', tr_income = 500000, tr_expenses = 92500\<rparr>]"
proof -
  have k: "to_char_YYYY_MM (t_date salary) = ''2024-03''"
    "to_char_YYYY_MM (t_date dinner) = ''2024-03''"
    "to_char_YYYY_MM (t_date february) = ''2024-02''"
    "to_char_YYYY_MM (t_date taxi) = ''2024-03''"
    by (simp_all add: salary_def dinner_def february_def taxi_def month_keys0)
  have f: "t_type salary = income" "t_type dinner = expense" "t_type february = expense"
    "t_type taxi = expense" "t_amount salary = 500000" "t_amount dinner = 85000"
    "t_amount february = 12000" "t_amount taxi = 7500"
    by (simp_all add: salary_def dinner_def february_def taxi_def)
  have "monthlyTrends (transactions world_mixed) ''alice'' 1707991200000 1710496800000 =
     [\<lparr>tr_month = ''2024-02'', tr_income = 0, tr_expenses = 12000\<rparr>,
      \<lparr>tr_month = ''2024-03'', tr_income = 500000, tr_expenses = 92500\<rparr>]"
    unfolding monthlyTrends_def window_mixed
    by (simp add: k f Let_def)
  then show ?thesis
    unfolding getMonthlyTrends_eq window_start0
    by (simp add: env0_simps)
qed

lemma spending_mixed:
  "fst (getSpendingByCategory env0 ''alice'' 3 2024 world_mixed) =
     Inr [(Food, 85000), (Transportation, 7500)]"
proof -
  have rows: "filter (\<lambda>t. in_range ''alice'' 1709231400000 1711909799000 t \<and> t_type t = expense)
                (transactions world_mixed) = [dinner, taxi]"
    by (simp add: world_mixed_def world0_def in_range_def lunch_def salary_def dinner_def
          february_def taxi_def snack_def early_def)
  have f: "t_category dinner = Food" "t_category taxi = Transportation"
     "t_amount dinner = 85000" "t_amount taxi = 7500"
    by (simp_all add: dinner_def taxi_def)
  have "spendingByCategory (transactions world_mixed) ''alice'' 1709231400000 1711909799000
        = [(Food, 85000), (Transportation, 7500)]"
    unfolding spendingByCategory_def rows by (simp add: f Let_def)
  then show ?thesis
    using march_2024 by (simp add: getSpendingByCategory_eq env0_simps)
qed

text \<open>
  On the last day of March, one month back is the 31st of February, which the date
  arithmetic reads as the 2nd of March.
\<close>

lemma window_start_eom:
  "setMonth env_eom (now env_eom 1) (getMonth env_eom (now env_eom 0) - 1) = Some 1709373600000"
proof -
  have l: "LocalTime env_eom (now env_eom k) = 1711899000000" for k
    by (simp add: LocalTime_def env_eom_def env0_def)
  have y: "YearFromTime 1711899000000 = 2024" by (simp add: date_eval)
  have mo: "MonthFromTime 1711899000000 = 2" by (simp add: date_eval)
  have d: "DateFromTime 1711899000000 = 31" by (simp add: date_eval)
  have t: "TimeWithinDay 1711899000000 = 55800000" by (simp add: date_eval)
  have m: "MakeDay 2024 1 31 = 19784" by (simp add: date_eval)
  have g: "getMonth env_eom (now env_eom 0) - 1 = 1"
    by (simp add: getMonth_def l mo)
  show ?thesis
    unfolding g setMonth_def l Let_def y d t m
    by (simp add: MakeDate_def msPerDay_def UTC_def env_eom_def env0_def TimeClip_def)
qed

lemma trends_eom:
  "fst (getMonthlyTrends env_eom ''alice'' 1 world_eom) =
     Inr [\<lparr>tr_month = ''2024-03'', tr_income = 0, tr_expenses = 85000\<rparr>]"
proof -
  have n: "now env_eom 0 = 1711879200000" "\<not> fails env_eom (length (trace world_eom))"
    by (simp_all add: env_eom_def env0_def)
  have rows: "filter (in_range ''alice'' 1709373600000 1711879200000) (transactions world_eom)
              = [dinner]"
    by (simp add: world_eom_def world0_def in_range_def rent_def dinner_def)
  have k: "to_char_YYYY_MM (t_date dinner) = ''2024-03''"
    by (simp add: dinner_def month_keys0)
  have f: "t_type dinner = expense" "t_amount dinner = 85000"
    by (simp_all add: dinner_def)
  have "monthlyTrends (transactions world_eom) ''alice'' 1709373600000 1711879200000 =
     [\<lparr>tr_month = ''2024-03'', tr_income = 0, tr_expenses = 85000\<rparr>]"
    unfolding monthlyTrends_def rows by (simp add: k f Let_def)
  then show ?thesis
    unfolding getMonthlyTrends_eq window_start_eom
    by (simp add: n)
qed

lemma rent_in_march:
  "to_char_YYYY_MM (t_date rent) = ''2024-03''"
proof -
  have y: "YearFromTime 1709294400000 = 2024" by (simp add: date_eval)
  have m: "MonthFromTime 1709294400000 = 2" by (simp add: date_eval)
  have d: "digits10 2024 = ''2024''" "digits10 3 = ''3''"
    by (simp_all add: digits10.simps digit_char_def)
  show ?thesis
    by (simp add: rent_def to_char_YYYY_MM_def y m d zero_pad_def)
qed

text \<open>
  The thresholds bear on the percentage as binary64 arithmetic gives it.  An expense of
  4.52 against a budget of 5.65 is 80 percent of it in decimal arithmetic, but the quotient
  of the two nearest binary64 values, rounded, and its product with 100, rounded, is
  79.99999999999999: the evaluator creates no notification.
\<close>

lemma small_amounts:
  "parseFloat 452 = Fin (1272266894732165 / 281474976710656)"
  "parseFloat 565 = Fin (3180667236830413 / 562949953421312)"
  "round64 (1272266894732165 / 281474976710656) = Fin (1272266894732165 / 281474976710656)"
  by (simp_all add: number_eval)

lemma small_percentage:
  "num_mul (num_div (Fin (1272266894732165 / 281474976710656))
                    (Fin (3180667236830413 / 562949953421312))) (Fin 100)
   = Fin (5629499534213119 / 70368744177664)"
  by (simp add: number_eval)

lemma rounding_below_80:
  "notifications (checkBudgetAlerts env0 ''alice'' Food 3 2024 world_small) = []"
proof -
  let ?b = "food_budget\<lparr>b_amount := 565\<rparr>"
  have bud: "find (budget_matches ''alice'' Food 3 2024) (budgets world_small) = Some ?b"
    by (simp add: world_small_def world0_def food_budget_def budget_matches_def)
  have sp: "Fin (1272266894732165 / 281474976710656) = totalSpent (categoryTransactions Food
              (transactionsByDateRange (transactions world_small) ''alice''
                 1709231400000 1711909799000))"
    by (simp add: world_small_def world0_def transactionsByDateRange_def in_range_def
          categoryTransactions_def totalSpent_def coffee_def small_amounts)
  have am: "Fin (3180667236830413 / 562949953421312) = parseFloat (b_amount ?b)"
    by (simp add: small_amounts)
  have pc: "percentage (Fin (1272266894732165 / 281474976710656))
              (Fin (3180667236830413 / 562949953421312))
            = Fin (5629499534213119 / 70368744177664)"
    by (simp add: percentage_def small_percentage)
  have nf: "\<not> fails env0 (length (trace world_small))"
    "\<not> fails env0 (length (trace world_small) + 1)"
    "\<not> fails env0 (length (trace world_small) + 2)"
    by (simp_all add: env0_simps)
  note found = checkBudgetAlerts_found[OF nf bud march_2024(1) march_2024(2) sp am refl]
  show ?thesis
    by (subst found) (simp add: pc num_ge_def world_small_def world0_def)
qed

lemma world_small_simps:
  "find (budget_matches ''alice'' Food 3 2024) (budgets world_small)
     = Some (food_budget\<lparr>b_amount := 565\<rparr>)"
  "trace world_small = []" "notifications world_small = []"
  "categoryTransactions Food
     (transactionsByDateRange (transactions world_small) ''alice''
        1709231400000 1711909799000) = [coffee]"
  by (simp_all add: world_small_def world0_def food_budget_def budget_matches_def
        transactionsByDateRange_def in_range_def categoryTransactions_def coffee_def)

text \<open>The dinner at the boundaries of the thresholds: 800.00, 799.90 and 1000.00.\<close>

lemma boundary_amounts:
  "parseFloat 80000 = Fin 800"
  "parseFloat 79990 = Fin (7035994808464179 / 8796093022208)"
  "round64 800 = Fin 800" "round64 1000 = Fin 1000"
  "round64 (7035994808464179 / 8796093022208) = Fin (7035994808464179 / 8796093022208)"
  by (simp_all add: number_eval)

lemma boundary_percentages:
  "num_mul (num_div (Fin 800) (Fin 1000)) (Fin 100) = Fin 80"
  "num_mul (num_div (Fin (7035994808464179 / 8796093022208)) (Fin 1000)) (Fin 100)
     = Fin (5628795846771343 / 70368744177664)"
  "num_mul (num_div (Fin 1000) (Fin 1000)) (Fin 100) = Fin 100"
  by (simp_all add: number_eval)

lemma boundary_texts:
  "toFixed1 plain_digits (Fin 80) = ''80.0''" "plain_digits (Fin 800) = ''800''"
  "plain_digits (Fin 0) = ''0''" "num_sub (Fin 1000) (Fin 1000) = Fin 0"
  by (simp_all add: toFixed1_def plain_digits_def digits10.simps digit_char_def
        num_sub_def round64_def)

lemma spent_one:
  "totalSpent (categoryTransactions Food
     (transactionsByDateRange (transactions (world_spent a)) ''alice''
        1709231400000 1711909799000)) = num_add (Fin 0) (parseFloat a)"
  by (simp add: world_spent_def world0_def transactionsByDateRange_def in_range_def
        categoryTransactions_def totalSpent_def dinner_def)

lemma world_spent_simps:
  "find (budget_matches ''alice'' Food 3 2024) (budgets (world_spent a)) = Some food_budget"
  "trace (world_spent a) = []" "notifications (world_spent a) = []"
  by (simp_all add: world_spent_def world0_def food_budget_def budget_matches_def)

text \<open>The dinner posted while the insert of the notification fails.\<close>

lemma env_full_simps:
  "now env_full k = 1710496800000" "fails env_full k = (k = 3)"
  "gen_random_uuid env_full k = ''row-'' @ digits10 k" "defaultNow env_full k = 1710496800000"
  "getMonth env_full t = getMonth env0 t" "getFullYear env_full t = getFullYear env0 t"
  "newDate env_full y m d h mi sec = newDate env0 y m d h mi sec"
  by (simp_all add: env_full_def env0_def getMonth_def getFullYear_def newDate_def
        LocalTime_def UTC_def)

lemma insert_fails:
  "fst (checkBudgetAlerts_try env_full ''alice'' Food 3 2024
          (world0\<lparr>trace := trace world0 @ [CreateTransaction ''alice'' tx_dinner],
                   transactions := transactions world0 @ [dinner]\<rparr>)) = Inl DbError"
proof -
  let ?w1 = "world0\<lparr>trace := trace world0 @ [CreateTransaction ''alice'' tx_dinner],
                     transactions := transactions world0 @ [dinner]\<rparr>"
  have f: "\<not> fails env_full (length (trace ?w1))" "\<not> fails env_full (length (trace ?w1) + 1)"
    "fails env_full (length (trace ?w1) + 2)"
    by (simp_all add: env_full_simps world0_def)
  have bud: "find (budget_matches ''alice'' Food 3 2024) (budgets ?w1) = Some food_budget"
    by (simp add: world0_def food_budget_def budget_matches_def)
  have d: "newDate env_full 2024 (3 - 1) 1 0 0 0 = Some 1709231400000"
    "newDate env_full 2024 3 0 23 59 59 = Some 1711909799000"
    using march_2024 by (simp_all add: env_full_simps)
  have sp: "Fin 850 = totalSpent (categoryTransactions Food
              (transactionsByDateRange (transactions ?w1) ''alice'' 1709231400000 1711909799000))"
    by (simp add: world0_def spent_dinner)
  have am: "Fin 1000 = parseFloat (b_amount food_budget)"
    by (simp add: food_budget_def amounts0)
  have ge: "num_ge (percentage (Fin 850) (Fin 1000)) (Fin 80)"
    by (simp add: percentage_def percentages0 num_ge_def)
  show ?thesis
    by (rule checkBudgetAlerts_try_insert_fails[OF f bud d sp am ge])
qed

text \<open>
  Expenses of 0.10 and 100.10 against a budget of 100.20 are 100 percent of it in decimal
  arithmetic; in binary64 the sum is 100.19999999999999 and the percentage
  99.99999999999999, which \<open>toFixed(1)\<close> shows as 100.0: the evaluator takes the alert
  branch, not the exceeded one.
\<close>

lemma exact_amounts:
  "parseFloat 10 = Fin (3602879701896397 / 36028797018963968)"
  "parseFloat 10010 = Fin (3521955646092083 / 35184372088832)"
  "parseFloat 10020 = Fin (7050948166601933 / 70368744177664)"
  by (simp_all add: number_eval)

lemma exact_sum:
  "round64 (3602879701896397 / 36028797018963968)
     = Fin (3602879701896397 / 36028797018963968)"
  "round64 (3602879701896397 / 36028797018963968 + 3521955646092083 / 35184372088832)
     = Fin (1762737041650483 / 17592186044416)"
  "round64 (3610085461300189389 / 36028797018963968)
     = Fin (1762737041650483 / 17592186044416)"
  by (simp_all add: number_eval)

lemma exact_percentage:
  "num_mul (num_div (Fin (1762737041650483 / 17592186044416))
                    (Fin (7050948166601933 / 70368744177664))) (Fin 100)
   = Fin (7036874417766399 / 70368744177664)"
  by (simp add: number_eval)

lemma exact_selection:
  "categoryTransactions Food
     (transactionsByDateRange (transactions world_exact) ''alice''
        1709231400000 1711909799000) = [tip, feast]"
  by (simp add: world_exact_def world0_def transactionsByDateRange_def in_range_def
        categoryTransactions_def tip_def feast_def)

lemma exact_text:
  "toFixed1 plain_digits (Fin (7036874417766399 / 70368744177664)) = ''100.0''"
  by (simp add: toFixed1_def digits10.simps digit_char_def)

lemma rounding_below_100:
  "map n_title (notifications (checkBudgetAlerts env0 ''alice'' Food 3 2024 world_exact))
     = [''Budget Alert - Food'']"
proof -
  let ?b = "food_budget\<lparr>b_amount := 10020\<rparr>"
  have bud: "find (budget_matches ''alice'' Food 3 2024) (budgets world_exact) = Some ?b"
    by (simp add: world_exact_def world0_def food_budget_def budget_matches_def)
  have sp: "Fin (1762737041650483 / 17592186044416) = totalSpent (categoryTransactions Food
              (transactionsByDateRange (transactions world_exact) ''alice''
                 1709231400000 1711909799000))"
    unfolding exact_selection
    by (simp add: totalSpent_def tip_def feast_def exact_amounts exact_sum)
  have am: "Fin (7050948166601933 / 70368744177664) = parseFloat (b_amount ?b)"
    by (simp add: exact_amounts)
  have pc: "percentage (Fin (1762737041650483 / 17592186044416))
              (Fin (7050948166601933 / 70368744177664))
            = Fin (7036874417766399 / 70368744177664)"
    by (simp add: percentage_def exact_percentage)
  have nf: "\<not> fails env0 (length (trace world_exact))"
    "\<not> fails env0 (length (trace world_exact) + 1)"
    "\<not> fails env0 (length (trace world_exact) + 2)"
    by (simp_all add: env0_simps)
  note found = checkBudgetAlerts_found[OF nf bud march_2024(1) march_2024(2) sp am refl]
  show ?thesis
    by (subst found)
      (simp add: pc num_ge_def world_exact_def world0_def newNotification_def
         alert_notification_def)
qed

section \<open>The thresholds of the evaluator\<close>

text \<open>
  Claim C1, as stated, fails.  The amounts are stored as decimals and the percentage is
  computed in binary64, so spend that is 80 or 100 percent of a positive budget can compute
  to just below the threshold.  In March 2024 Alice's only Food expense, 4.52, is exactly
  80 percent of her Food budget of 5.65, and the evaluator creates no notification; her two
  Food expenses 0.10 and 100.10 are exactly 100 percent of a Food budget of 100.20, and the
  evaluator creates a notification titled \<open>Budget Alert - Food\<close>, not
  \<open>Budget Exceeded - Food\<close>.
\<close>

theorem C1_decimal_thresholds_counterexample:
  "map b_amount (budgets world_small) = [565]
   \<and> map t_amount (categoryTransactions Food
          (transactionsByDateRange (transactions world_small) ''alice''
             1709231400000 1711909799000)) = [452]
   \<and> (452 :: int) * 100 = 80 * 565
   \<and> notifications (checkBudgetAlerts env0 ''alice'' Food 3 2024 world_small) = []
   \<and> map b_amount (budgets world_exact) = [10020]
   \<and> map t_amount (categoryTransactions Food
          (transactionsByDateRange (transactions world_exact) ''alice''
             1709231400000 1711909799000)) = [10, 10010]
   \<and> ((10 + 10010) :: int) * 100 = 100 * 10020
   \<and> map n_title (notifications (checkBudgetAlerts env0 ''alice'' Food 3 2024 world_exact))
       = [''Budget Alert - Food'']"
proof -
  have "map b_amount (budgets world_small) = [565]"
    "map b_amount (budgets world_exact) = [10020]"
    by (simp_all add: world_small_def world_exact_def world0_def)
  moreover have "map t_amount (categoryTransactions Food
          (transactionsByDateRange (transactions world_small) ''alice''
             1709231400000 1711909799000)) = [452]"
    unfolding world_small_simps(4) by (simp add: coffee_def)
  moreover have "map t_amount (categoryTransactions Food
          (transactionsByDateRange (transactions world_exact) ''alice''
             1709231400000 1711909799000)) = [10, 10010]"
    unfolding exact_selection by (simp add: tip_def feast_def)
  ultimately show ?thesis
    using rounding_below_80 rounding_below_100 by simp
qed

text \<open>
  Claim C1, amended.  The thresholds apply to the percentage as the evaluator computes it:
  \<open>pct = spent / amt * 100\<close> in binary64, where \<open>spent\<close> is the sum of the parsed amounts added
  in query order, \<open>amt\<close> the parsed budget amount, and every operation rounds to nearest.
  When the lookup finds a budget and the storage calls succeed, then for \<open>80 \<le> pct < 100\<close>
  (a computed 80 included) the evaluator appends exactly one unread \<open>warning\<close> titled
  \<open>Budget Alert - <category>\<close> whose message gives \<open>pct\<close> to one decimal place and the two
  amounts; for \<open>pct \<ge> 100\<close> (a computed 100 included) exactly one titled
  \<open>Budget Exceeded - <category>\<close> whose message gives \<open>spent - amt\<close>; for \<open>pct < 80\<close> none.
  The statement holds for every budget amount, the positive ones in particular.
\<close>

theorem C1_alert_thresholds:
  assumes "\<not> fails env (length (trace w))"
    and "\<not> fails env (length (trace w) + 1)"
    and "\<not> fails env (length (trace w) + 2)"
    and "find (budget_matches userId cat month year) (budgets w) = Some budget"
    and "newDate env year (month - 1) 1 0 0 0 = Some s"
    and "newDate env year month 0 23 59 59 = Some e"
    and "spent = totalSpent (categoryTransactions cat
                   (transactionsByDateRange (transactions w) userId s e))"
    and "amt = parseFloat (b_amount budget)"
    and "pct = num_mul (num_div spent amt) (Fin 100)"
    and "w' = checkBudgetAlerts env userId cat month year w"
  shows "(num_ge pct (Fin 80) \<and> num_lt pct (Fin 100) \<longrightarrow>
            notifications w' = notifications w @
              [\<lparr>n_id = gen_random_uuid env (length (trace w) + 2), n_userId = userId,
                n_title = ''Budget Alert - '' @ category_name cat,
                n_message = ''You'' @ [CHR 0x27] @ ''ve spent ''
                   @ toFixed1 (numberToString env) pct
                   @ ''% of your '' @ category_name cat @ '' budget this month (''
                   @ rupee @ toLocaleString env spent @ '' of ''
                   @ rupee @ toLocaleString env amt @ '')'',
                n_type = ''warning'', n_isRead = False,
                n_createdAt = defaultNow env (length (trace w) + 2)\<rparr>])
       \<and> (num_ge pct (Fin 100) \<longrightarrow>
            notifications w' = notifications w @
              [\<lparr>n_id = gen_random_uuid env (length (trace w) + 2), n_userId = userId,
                n_title = ''Budget Exceeded - '' @ category_name cat,
                n_message = ''You'' @ [CHR 0x27] @ ''ve exceeded your '' @ category_name cat
                   @ '' budget by '' @ rupee @ toLocaleString env (num_sub spent amt),
                n_type = ''warning'', n_isRead = False,
                n_createdAt = defaultNow env (length (trace w) + 2)\<rparr>])
       \<and> (num_lt pct (Fin 80) \<longrightarrow> notifications w' = notifications w)"
proof -
  have pct: "pct = percentage spent amt"
    using assms(9) by (simp add: percentage_def)
  have w': "w' =
     (if num_ge pct (Fin 80) \<and> num_lt pct (Fin 100)
      then w\<lparr>trace := trace w @ [GetBudgetByCategory userId cat month year,
                GetTransactionsByDateRange userId (Some s) (Some e),
                CreateNotification (alert_notification env userId cat spent amt)],
              notifications := notifications w
                 @ [newNotification env (alert_notification env userId cat spent amt)
                     (w\<lparr>trace := trace w @ [GetBudgetByCategory userId cat month year,
                       GetTransactionsByDateRange userId (Some s) (Some e)]\<rparr>)]\<rparr>
      else if num_ge pct (Fin 100)
      then w\<lparr>trace := trace w @ [GetBudgetByCategory userId cat month year,
                GetTransactionsByDateRange userId (Some s) (Some e),
                CreateNotification (exceeded_notification env userId cat spent amt)],
              notifications := notifications w
                 @ [newNotification env (exceeded_notification env userId cat spent amt)
                     (w\<lparr>trace := trace w @ [GetBudgetByCategory userId cat month year,
                       GetTransactionsByDateRange userId (Some s) (Some e)]\<rparr>)]\<rparr>
      else w\<lparr>trace := trace w @ [GetBudgetByCategory userId cat month year,
                GetTransactionsByDateRange userId (Some s) (Some e)]\<rparr>)"
    unfolding assms(10) pct
    by (subst checkBudgetAlerts_found[OF assms(1-8) refl]) simp
  have excl: "num_ge pct (Fin 100) \<Longrightarrow> \<not> num_lt pct (Fin 100)"
    by (simp add: num_ge_def)
  have below: "num_lt pct (Fin 80) \<Longrightarrow> \<not> num_ge pct (Fin 80) \<and> \<not> num_ge pct (Fin 100)"
    by (cases pct) (auto simp: num_ge_def)
  show ?thesis
  proof (intro conjI impI)
    assume "num_ge pct (Fin 80) \<and> num_lt pct (Fin 100)"
    then show "notifications w' = notifications w @
              [\<lparr>n_id = gen_random_uuid env (length (trace w) + 2), n_userId = userId,
                n_title = ''Budget Alert - '' @ category_name cat,
                n_message = ''You'' @ [CHR 0x27] @ ''ve spent ''
                   @ toFixed1 (numberToString env) pct
                   @ ''% of your '' @ category_name cat @ '' budget this month (''
                   @ rupee @ toLocaleString env spent @ '' of ''
                   @ rupee @ toLocaleString env amt @ '')'',
                n_type = ''warning'', n_isRead = False,
                n_createdAt = defaultNow env (length (trace w) + 2)\<rparr>]"
      by (simp add: w' newNotification_def alert_notification_def pct)
  next
    assume ge: "num_ge pct (Fin 100)"
    show "notifications w' = notifications w @
              [\<lparr>n_id = gen_random_uuid env (length (trace w) + 2), n_userId = userId,
                n_title = ''Budget Exceeded - '' @ category_name cat,
                n_message = ''You'' @ [CHR 0x27] @ ''ve exceeded your '' @ category_name cat
                   @ '' budget by '' @ rupee @ toLocaleString env (num_sub spent amt),
                n_type = ''warning'', n_isRead = False,
                n_createdAt = defaultNow env (length (trace w) + 2)\<rparr>]"
      using ge excl[OF ge] by (simp add: w' newNotification_def exceeded_notification_def)
  next
    assume "num_lt pct (Fin 80)"
    from below[OF this] show "notifications w' = notifications w"
      by (simp add: w')
  qed
qed

theorem C1_alert_witness:
  "notifications (checkBudgetAlerts env0 ''alice'' Food 3 2024 (world_spent 85000)) =
     [\<lparr>n_id = ''row-2'', n_userId = ''alice'', n_title = ''Budget Alert - Food'',
       n_message = ''You'' @ [CHR 0x27] @ ''ve spent 85.0% of your Food budget this month (''
          @ rupee @ ''850 of '' @ rupee @ ''1000)'',
       n_type = ''warning'', n_isRead = False, n_createdAt = 1710496800000\<rparr>]
   \<and> notifications (checkBudgetAlerts env0 ''alice'' Food 3 2024 (world_spent 80000)) =
     [\<lparr>n_id = ''row-2'', n_userId = ''alice'', n_title = ''Budget Alert - Food'',
       n_message = ''You'' @ [CHR 0x27] @ ''ve spent 80.0% of your Food budget this month (''
          @ rupee @ ''800 of '' @ rupee @ ''1000)'',
       n_type = ''warning'', n_isRead = False, n_createdAt = 1710496800000\<rparr>]
   \<and> notifications (checkBudgetAlerts env0 ''alice'' Food 3 2024 (world_spent 79990)) = []
   \<and> notifications (checkBudgetAlerts env0 ''alice'' Food 3 2024 (world_spent 100000)) =
     [\<lparr>n_id = ''row-2'', n_userId = ''alice'', n_title = ''Budget Exceeded - Food'',
       n_message = ''You'' @ [CHR 0x27] @ ''ve exceeded your Food budget by '' @ rupee @ ''0'',
       n_type = ''warning'', n_isRead = False, n_createdAt = 1710496800000\<rparr>]
   \<and> notifications (checkBudgetAlerts env0 ''alice'' Food 3 2024 world_small) = []"
proof -
  have nf: "\<not> fails env0 (length (trace (world_spent a)))"
    "\<not> fails env0 (length (trace (world_spent a)) + 1)"
    "\<not> fails env0 (length (trace (world_spent a)) + 2)" for a
    by (simp_all add: env0_simps)
  note bud = world_spent_simps(1)
  have am: "Fin 1000 = parseFloat (b_amount food_budget)"
    by (simp add: food_budget_def amounts0)
  have sp: "Fin 850 = totalSpent (categoryTransactions Food
              (transactionsByDateRange (transactions (world_spent 85000)) ''alice''
                 1709231400000 1711909799000))"
    "Fin 800 = totalSpent (categoryTransactions Food
              (transactionsByDateRange (transactions (world_spent 80000)) ''alice''
                 1709231400000 1711909799000))"
    "Fin (7035994808464179 / 8796093022208) = totalSpent (categoryTransactions Food
              (transactionsByDateRange (transactions (world_spent 79990)) ''alice''
                 1709231400000 1711909799000))"
    "Fin 1000 = totalSpent (categoryTransactions Food
              (transactionsByDateRange (transactions (world_spent 100000)) ''alice''
                 1709231400000 1711909799000))"
    by (simp_all add: spent_one amounts0 sums0 boundary_amounts)
  have bands: "num_ge (Fin 85) (Fin 80) \<and> num_lt (Fin 85) (Fin 100)"
    "num_ge (Fin 80) (Fin 80) \<and> num_lt (Fin 80) (Fin 100)"
    "num_lt (Fin (5628795846771343 / 70368744177664)) (Fin 80)"
    "num_ge (Fin 100) (Fin 100)"
    by (simp_all add: num_ge_def)
  from C1_alert_thresholds[OF nf bud march_2024(1) march_2024(2) sp(1) am
         percentages0(1)[symmetric] refl] bands(1)
  have a: "notifications (checkBudgetAlerts env0 ''alice'' Food 3 2024 (world_spent 85000)) =
     [\<lparr>n_id = ''row-2'', n_userId = ''alice'', n_title = ''Budget Alert - Food'',
       n_message = ''You'' @ [CHR 0x27] @ ''ve spent 85.0% of your Food budget this month (''
          @ rupee @ ''850 of '' @ rupee @ ''1000)'',
       n_type = ''warning'', n_isRead = False, n_createdAt = 1710496800000\<rparr>]"
    by (simp add: world_spent_simps env0_simps texts0)
  from C1_alert_thresholds[OF nf bud march_2024(1) march_2024(2) sp(2) am
         boundary_percentages(1)[symmetric] refl] bands(2)
  have b: "notifications (checkBudgetAlerts env0 ''alice'' Food 3 2024 (world_spent 80000)) =
     [\<lparr>n_id = ''row-2'', n_userId = ''alice'', n_title = ''Budget Alert - Food'',
       n_message = ''You'' @ [CHR 0x27] @ ''ve spent 80.0% of your Food budget this month (''
          @ rupee @ ''800 of '' @ rupee @ ''1000)'',
       n_type = ''warning'', n_isRead = False, n_createdAt = 1710496800000\<rparr>]"
    by (simp add: world_spent_simps env0_simps texts0 boundary_texts)
  from C1_alert_thresholds[OF nf bud march_2024(1) march_2024(2) sp(3) am
         boundary_percentages(2)[symmetric] refl] bands(3)
  have c: "notifications (checkBudgetAlerts env0 ''alice'' Food 3 2024 (world_spent 79990)) = []"
    by (simp add: world_spent_simps)
  from C1_alert_thresholds[OF nf bud march_2024(1) march_2024(2) sp(4) am
         boundary_percentages(3)[symmetric] refl] bands(4)
  have d: "notifications (checkBudgetAlerts env0 ''alice'' Food 3 2024 (world_spent 100000)) =
     [\<lparr>n_id = ''row-2'', n_userId = ''alice'', n_title = ''Budget Exceeded - Food'',
       n_message = ''You'' @ [CHR 0x27] @ ''ve exceeded your Food budget by '' @ rupee @ ''0'',
       n_type = ''warning'', n_isRead = False, n_createdAt = 1710496800000\<rparr>]"
    by (simp add: world_spent_simps env0_simps texts0 boundary_texts)
  have nf': "\<not> fails env0 (length (trace world_small))"
    "\<not> fails env0 (length (trace world_small) + 1)"
    "\<not> fails env0 (length (trace world_small) + 2)"
    by (simp_all add: env0_simps)
  have sp': "Fin (1272266894732165 / 281474976710656) = totalSpent (categoryTransactions Food
              (transactionsByDateRange (transactions world_small) ''alice''
                 1709231400000 1711909799000))"
    unfolding world_small_simps(4) by (simp add: totalSpent_def coffee_def small_amounts)
  have am': "Fin (3180667236830413 / 562949953421312)
               = parseFloat (b_amount (food_budget\<lparr>b_amount := 565\<rparr>))"
    by (simp add: small_amounts)
  have band': "num_lt (Fin (5629499534213119 / 70368744177664)) (Fin 80)"
    by simp
  from C1_alert_thresholds[OF nf' world_small_simps(1) march_2024(1) march_2024(2) sp' am'
         small_percentage[symmetric] refl] band'
  have e: "notifications (checkBudgetAlerts env0 ''alice'' Food 3 2024 world_small) = []"
    by (simp add: world_small_simps)
  from a b c d e show ?thesis by blast
qed

section \<open>What the evaluator sums\<close>



section \<open>The evaluator without a budget\<close>

text \<open>
  Claim C3.  When no budget row matches the user, category, month and year, the evaluator
  is a no-op: the four tables are as before, the only storage call made is the lookup,
  and when that lookup does not fail the \<^verbatim>\<open>try\<close> block ends normally and nothing is
  logged.  Hence creating a transaction in a category that has no budget for the current
  month leaves the notifications as they were.
\<close>

theorem C3_no_budget_is_noop:
  "((\<forall>b\<in>set (budgets w). \<not> budget_matches userId cat month year b) \<longrightarrow>
      (let w' = checkBudgetAlerts env userId cat month year w
       in notifications w' = notifications w \<and> transactions w' = transactions w
          \<and> budgets w' = budgets w \<and> goals w' = goals w
          \<and> trace w' = trace w @ [GetBudgetByCategory userId cat month year]
          \<and> (\<not> fails env (length (trace w)) \<longrightarrow>
                fst (checkBudgetAlerts_try env userId cat month year w) = Inr ()
                \<and> console w' = console w)))
   \<and> ((\<forall>b\<in>set (budgets w). \<not> budget_matches uid (it_category tx)
            (getMonth env (now env 0) + 1) (getFullYear env (now env 1)) b) \<longrightarrow>
        notifications (snd (post_api_transactions env (Some uid) (Some tx) w)) = notifications w)"
proof (intro conjI impI)
  assume nb: "\<forall>b\<in>set (budgets w). \<not> budget_matches userId cat month year b"
  show "let w' = checkBudgetAlerts env userId cat month year w
       in notifications w' = notifications w \<and> transactions w' = transactions w
          \<and> budgets w' = budgets w \<and> goals w' = goals w
          \<and> trace w' = trace w @ [GetBudgetByCategory userId cat month year]
          \<and> (\<not> fails env (length (trace w)) \<longrightarrow>
                fst (checkBudgetAlerts_try env userId cat month year w) = Inr ()
                \<and> console w' = console w)"
    by (simp add: checkBudgetAlerts_no_budget[OF nb] checkBudgetAlerts_try_no_budget[OF nb])
next
  let ?m = "getMonth env (now env 0) + 1" and ?y = "getFullYear env (now env 1)"
  let ?w1 = "w\<lparr>trace := trace w @ [CreateTransaction uid tx],
                transactions := transactions w @ [newTransaction env uid tx w]\<rparr>"
  assume nb: "\<forall>b\<in>set (budgets w). \<not> budget_matches uid (it_category tx) ?m ?y b"
  then have nb1: "\<forall>b\<in>set (budgets ?w1). \<not> budget_matches uid (it_category tx) ?m ?y b"
    by simp
  have "notifications (checkBudgetAlerts env uid (it_category tx) ?m ?y ?w1) = notifications w"
    by (simp add: checkBudgetAlerts_no_budget[OF nb1] del: One_nat_def)
  then show "notifications (snd (post_api_transactions env (Some uid) (Some tx) w)) = notifications w"
    by (simp add: post_api_transactions_eq del: One_nat_def)
qed

theorem C3_no_budget_witness:
  "notifications (checkBudgetAlerts env0 ''alice'' Transportation 3 2024 world0) = []
   \<and> notifications (snd (post_api_transactions env0 (Some ''alice'') (Some tx_bus) world0)) = []"
  using C3_no_budget_is_noop[where w = world0 and userId = "''alice''" and cat = Transportation
          and month = 3 and year = 2024 and env = env0 and uid = "''alice''" and tx = tx_bus]
  by (simp add: Let_def world0_def food_budget_def budget_matches_def tx_bus_def del: One_nat_def)

section \<open>When the evaluator runs\<close>

text \<open>
  Claim C4.  Among the storage calls of a request that creates a transaction, the insert
  comes first, and the evaluator is invoked (it looks the budget up) exactly once when the
  insert succeeded and the transaction is an expense, and not at all otherwise.  The month
  and year it is given are those of the server's clock in local time, read after the
  insert; the date of the transaction plays no part.
\<close>

theorem C4_evaluator_invoked_once:
  "(let w' = snd (post_api_transactions env (Some uid) (Some tx) w);
        calls = drop (length (trace w)) (trace w')
    in calls \<noteq> [] \<and> hd calls = CreateTransaction uid tx
       \<and> filter is_budget_lookup calls =
           (if \<not> fails env (length (trace w)) \<and> it_type tx = expense
            then [GetBudgetByCategory uid (it_category tx)
                    (MonthFromTime (LocalTime env (now env 0)) + 1)
                    (YearFromTime (LocalTime env (now env 1)))]
            else []))"
proof -
  let ?m = "getMonth env (now env 0) + 1" and ?y = "getFullYear env (now env 1)"
  let ?w1 = "w\<lparr>trace := trace w @ [CreateTransaction uid tx],
                transactions := transactions w @ [newTransaction env uid tx w]\<rparr>"
  obtain rest where rest:
    "trace (checkBudgetAlerts env uid (it_category tx) ?m ?y ?w1) =
       trace ?w1 @ GetBudgetByCategory uid (it_category tx) ?m ?y # rest"
    "filter is_budget_lookup rest = []"
    using checkBudgetAlerts_trace[of env uid "it_category tx" ?m ?y ?w1] by blast
  show ?thesis
    using rest
    by (simp add: post_api_transactions_eq Let_def getMonth_def getFullYear_def del: One_nat_def)
qed

section \<open>Failures of the evaluator\<close>

text \<open>
  Claim C5.  Once the insert has succeeded, the request answers 201 with the created
  transaction and the row stays in the table, whatever the storage calls of the evaluator
  do; an error leaving the \<^verbatim>\<open>try\<close> block (a failed lookup, fetch or notification insert) is
  written to the console and goes no further.
\<close>

theorem C5_evaluator_failures_isolated:
  assumes "\<not> fails env (length (trace w))"
    and "w1 = w\<lparr>trace := trace w @ [CreateTransaction uid tx],
                  transactions := transactions w @ [newTransaction env uid tx w]\<rparr>"
    and "outcome = fst (checkBudgetAlerts_try env uid (it_category tx)
                          (getMonth env (now env 0) + 1) (getFullYear env (now env 1)) w1)"
    and "w' = snd (post_api_transactions env (Some uid) (Some tx) w)"
  shows "fst (post_api_transactions env (Some uid) (Some tx) w)
           = (201, TransactionJson (newTransaction env uid tx w))
       \<and> transactions w' = transactions w @ [newTransaction env uid tx w]
       \<and> console w' =
           (case outcome of
              Inl e \<Rightarrow> if it_type tx = expense
                        then console w @ [(''Error checking budget alerts:'', e)] else console w
            | Inr u \<Rightarrow> console w)"
  using assms(1)
  by (simp add: assms(2-4) post_api_transactions_eq checkBudgetAlerts_tables
        checkBudgetAlerts_console del: One_nat_def split: sum.splits)

theorem C5_failure_witness:
  "fst (post_api_transactions env_down (Some ''alice'') (Some tx_dinner) world0)
     = (201, TransactionJson dinner)
   \<and> transactions (snd (post_api_transactions env_down (Some ''alice'') (Some tx_dinner) world0))
     = [dinner]
   \<and> console (snd (post_api_transactions env_down (Some ''alice'') (Some tx_dinner) world0))
     = [(''Error checking budget alerts:'', DbError)]
   \<and> fst (post_api_transactions env_full (Some ''alice'') (Some tx_dinner) world0)
     = (201, TransactionJson dinner)
   \<and> transactions (snd (post_api_transactions env_full (Some ''alice'') (Some tx_dinner) world0))
     = [dinner]
   \<and> console (snd (post_api_transactions env_full (Some ''alice'') (Some tx_dinner) world0))
     = [(''Error checking budget alerts:'', DbError)]"
proof -
  have ty: "it_type tx_dinner = expense" "it_category tx_dinner = Food"
    by (simp_all add: tx_dinner_def)
  have nf: "\<not> fails env_down (length (trace world0))"
    by (simp add: env_down_def world0_def)
  have new: "newTransaction env_down ''alice'' tx_dinner world0 = dinner"
    by (simp add: newTransaction_def tx_dinner_def dinner_def world0_def env_down_def
          env0_simps texts0)
  have out: "fst (checkBudgetAlerts_try env_down ''alice'' (it_category tx_dinner)
                   (getMonth env_down (now env_down 0) + 1)
                   (getFullYear env_down (now env_down 1))
                   (world0\<lparr>trace := trace world0 @ [CreateTransaction ''alice'' tx_dinner],
                      transactions := transactions world0
                        @ [newTransaction env_down ''alice'' tx_dinner world0]\<rparr>)) = Inl DbError"
    by (simp add: checkBudgetAlerts_try_def getBudgetByCategory_eq env_down_def world0_def
          del: One_nat_def)
  note th = C5_evaluator_failures_isolated[OF nf refl refl refl, of "''alice''" tx_dinner]
  from th[unfolded out, unfolded new] have down:
    "fst (post_api_transactions env_down (Some ''alice'') (Some tx_dinner) world0)
       = (201, TransactionJson dinner)
     \<and> transactions (snd (post_api_transactions env_down (Some ''alice'') (Some tx_dinner)
                             world0)) = [dinner]
     \<and> console (snd (post_api_transactions env_down (Some ''alice'') (Some tx_dinner) world0))
       = [(''Error checking budget alerts:'', DbError)]"
    by (simp add: ty world0_def)
  have nf': "\<not> fails env_full (length (trace world0))"
    by (simp add: env_full_simps world0_def)
  have new': "newTransaction env_full ''alice'' tx_dinner world0 = dinner"
    by (simp add: newTransaction_def tx_dinner_def dinner_def world0_def env_full_simps texts0)
  have month': "getMonth env_full (now env_full 0) + 1 = 3"
    "getFullYear env_full (now env_full 1) = 2024"
    using current_month0 by (simp_all add: env_full_simps env0_simps del: One_nat_def)
  note th' = C5_evaluator_failures_isolated[OF nf' refl refl refl, of "''alice''" tx_dinner]
  from th'[unfolded new' month' ty insert_fails] have full:
    "fst (post_api_transactions env_full (Some ''alice'') (Some tx_dinner) world0)
       = (201, TransactionJson dinner)
     \<and> transactions (snd (post_api_transactions env_full (Some ''alice'') (Some tx_dinner)
                             world0)) = [dinner]
     \<and> console (snd (post_api_transactions env_full (Some ''alice'') (Some tx_dinner) world0))
       = [(''Error checking budget alerts:'', DbError)]"
    by (simp add: world0_def)
  from down full show ?thesis by blast
qed

section \<open>The aggregation queries\<close>

text \<open>
  Claim C6.  Spending by category has one row for each category in which the user has an
  expense dated in the month and none for any other category, and the row's total is the
  sum of exactly those expenses.  Monthly trends has one bucket for each month key of the
  user's rows in its interval; a bucket's income and expenses are the sums of the rows of
  its key of type income and of type expense; and the totals of all buckets add up to the
  sum of the amounts of the user's rows in the interval, each row counted once.  Rows of
  other users contribute to neither query.
\<close>

theorem C6_aggregations_scoped:
  assumes "\<not> fails env (length (trace w))"
    and "newDate env year (month - 1) 1 0 0 0 = Some s"
    and "newDate env year month 0 23 59 59 = Some e"
    and "setMonth env (now env 1) (getMonth env (now env 0) - months) = Some s'"
    and "spending = (\<lambda>c. filter (\<lambda>t. t_userId t = userId \<and> t_type t = expense
                             \<and> s \<le> t_date t \<and> t_date t \<le> e \<and> t_category t = c)
                           (transactions w))"
    and "window = filter (\<lambda>t. t_userId t = userId \<and> s' \<le> t_date t \<and> t_date t \<le> now env 0)
                    (transactions w)"
    and "bucket = (\<lambda>k ty. filter (\<lambda>t. to_char_YYYY_MM (t_date t) = k \<and> t_type t = ty) window)"
  shows "\<exists>rows trends.
           fst (getSpendingByCategory env userId month year w) = Inr rows
         \<and> distinct (map fst rows)
         \<and> (\<forall>c. c \<in> set (map fst rows) \<longleftrightarrow> spending c \<noteq> [])
         \<and> (\<forall>(c, tot) \<in> set rows. tot = sum_list (map t_amount (spending c)))
         \<and> fst (getMonthlyTrends env userId months w) = Inr trends
         \<and> distinct (map tr_month trends)
         \<and> (\<forall>t \<in> set window. to_char_YYYY_MM (t_date t) \<in> set (map tr_month trends))
         \<and> (\<forall>r \<in> set trends.
               tr_income r = sum_list (map t_amount (bucket (tr_month r) income))
             \<and> tr_expenses r = sum_list (map t_amount (bucket (tr_month r) expense)))
         \<and> sum_list (map (\<lambda>r. tr_income r + tr_expenses r) trends)
             = sum_list (map t_amount window)"
proof -
  let ?rows = "spendingByCategory (transactions w) userId s e"
  let ?trends = "monthlyTrends (transactions w) userId s' (now env 0)"
  have win: "window = filter (in_range userId s' (now env 0)) (transactions w)"
    unfolding assms(6) by (auto simp: in_range_def intro: filter_cong)
  have r1: "fst (getSpendingByCategory env userId month year w) = Inr ?rows"
    using assms(1) by (simp add: getSpendingByCategory_eq assms(2,3))
  have r2: "distinct (map fst ?rows)"
    by (simp add: spendingByCategory_keys)
  have r3: "\<forall>c. c \<in> set (map fst ?rows) \<longleftrightarrow> spending c \<noteq> []"
    unfolding assms(5) using spendingByCategory_present[of _ "transactions w" userId s e]
    by blast
  have r4: "\<forall>(c, tot) \<in> set ?rows. tot = sum_list (map t_amount (spending c))"
    unfolding assms(5) using spendingByCategory_row[of _ _ "transactions w" userId s e]
    by blast
  have t1: "fst (getMonthlyTrends env userId months w) = Inr ?trends"
    using assms(1) by (simp add: getMonthlyTrends_eq assms(4) del: One_nat_def)
  have t2: "distinct (map tr_month ?trends)"
    by (simp add: monthlyTrends_keys)
  have t3: "\<forall>t \<in> set window. to_char_YYYY_MM (t_date t) \<in> set (map tr_month ?trends)"
    unfolding win by (simp add: monthlyTrends_keys)
  have t4: "\<forall>r \<in> set ?trends.
               tr_income r = sum_list (map t_amount (bucket (tr_month r) income))
             \<and> tr_expenses r = sum_list (map t_amount (bucket (tr_month r) expense))"
  proof
    fix r assume "r \<in> set ?trends"
    from monthlyTrends_row[OF this] show
      "tr_income r = sum_list (map t_amount (bucket (tr_month r) income))
       \<and> tr_expenses r = sum_list (map t_amount (bucket (tr_month r) expense))"
      unfolding assms(7) assms(6) by (simp add: conj_ac)
  qed
  have t5: "sum_list (map (\<lambda>r. tr_income r + tr_expenses r) ?trends)
             = sum_list (map t_amount window)"
    unfolding win by (rule monthlyTrends_total)
  from r1 r2 r3 r4 t1 t2 t3 t4 t5 show ?thesis by blast
qed

theorem C6_aggregations_witness:
  "fst (getSpendingByCategory env0 ''alice'' 3 2024 world_mixed)
     = Inr [(Food, 85000), (Transportation, 7500)]
   \<and> fst (getMonthlyTrends env0 ''alice'' 1 world_mixed)
     = Inr [\<lparr>tr_month = ''2024-02'', tr_income = 0, tr_expenses = 12000\<rparr>,
            \<lparr>tr_month = ''2024-03'', tr_income = 500000, tr_expenses = 92500\<rparr>]
   \<and> sum_list (map (\<lambda>r. tr_income r + tr_expenses r)
                 [\<lparr>tr_month = ''2024-02'', tr_income = 0, tr_expenses = 12000\<rparr>,
                  \<lparr>tr_month = ''2024-03'', tr_income = 500000, tr_expenses = 92500\<rparr>])
     = sum_list (map t_amount [salary, dinner, february, taxi])"
proof -
  have nf: "\<not> fails env0 (length (trace world_mixed))"
    by (simp add: env0_simps)
  note win = window_mixed_plain
  from C6_aggregations_scoped[where env = env0 and w = world_mixed and userId = "''alice''"
         and month = 3 and year = 2024 and months = 1,
         OF nf march_2024(1) march_2024(2) window_start0 refl refl refl]
  obtain rows trends where
      a: "fst (getSpendingByCategory env0 ''alice'' 3 2024 world_mixed) = Inr rows"
    and b: "fst (getMonthlyTrends env0 ''alice'' 1 world_mixed) = Inr trends"
    and c: "sum_list (map (\<lambda>r. tr_income r + tr_expenses r) trends)
            = sum_list (map t_amount
                (filter (\<lambda>t. t_userId t = ''alice'' \<and> 1707991200000 \<le> t_date t
                              \<and> t_date t \<le> now env0 0) (transactions world_mixed)))"
    by blast
  from a spending_mixed have rows: "rows = [(Food, 85000), (Transportation, 7500)]"
    by simp
  from b trends_mixed have trends:
    "trends = [\<lparr>tr_month = ''2024-02'', tr_income = 0, tr_expenses = 12000\<rparr>,
               \<lparr>tr_month = ''2024-03'', tr_income = 500000, tr_expenses = 92500\<rparr>]"
    by simp
  from a b c show ?thesis
    unfolding rows trends win by blast
qed

section \<open>No deduplication of alerts\<close>

text \<open>
  Claim C7.  Two expenses of one category created one after the other, each leaving the
  evaluated percentage at 80 or more, produce two notifications: the second evaluation
  starts from scratch and appends its own notification after the first one.
\<close>

theorem C7_alerts_not_idempotent:
  assumes "it_type tx1 = expense" and "it_type tx2 = expense"
    and "it_category tx1 = cat" and "it_category tx2 = cat"
    and "\<forall>k<4. \<not> fails env1 (length (trace w0) + k)"
    and "evaluated_percentage env1 uid cat
           (getMonth env1 (now env1 0) + 1) (getFullYear env1 (now env1 1))
           (w0\<lparr>transactions := transactions w0 @ [newTransaction env1 uid tx1 w0]\<rparr>) = Some p1"
    and "num_ge p1 (Fin 80)"
    and "w1 = snd (post_api_transactions env1 (Some uid) (Some tx1) w0)"
    and "\<forall>k<4. \<not> fails env2 (length (trace w1) + k)"
    and "evaluated_percentage env2 uid cat
           (getMonth env2 (now env2 0) + 1) (getFullYear env2 (now env2 1))
           (w1\<lparr>transactions := transactions w1 @ [newTransaction env2 uid tx2 w1]\<rparr>) = Some p2"
    and "num_ge p2 (Fin 80)"
    and "w2 = snd (post_api_transactions env2 (Some uid) (Some tx2) w1)"
  shows "\<exists>n1 n2. notifications w2 = notifications w0 @ [n1, n2]
           \<and> n_userId n1 = uid \<and> n_type n1 = ''warning''
           \<and> n_userId n2 = uid \<and> n_type n2 = ''warning''"
proof -
  from post_expense_in_band[of tx1 env1 w0 uid p1] assms(1,3,5,6,7,8)
  obtain n1 where n1: "notifications w1 = notifications w0 @ [n1]"
      "n_userId n1 = uid" "n_type n1 = ''warning''"
    by auto
  from post_expense_in_band[of tx2 env2 w1 uid p2] assms(2,4,9,10,11,12)
  obtain n2 where n2: "notifications w2 = notifications w1 @ [n2]"
      "n_userId n2 = uid" "n_type n2 = ''warning''"
    by auto
  from n1 n2 show ?thesis by simp
qed

theorem C7_two_alerts_witness:
  "\<exists>n1 n2. notifications (snd (post_api_transactions env0 (Some ''alice'') (Some tx_party)
                (snd (post_api_transactions env0 (Some ''alice'') (Some tx_dinner) world0))))
             = notifications world0 @ [n1, n2]
           \<and> n_userId n1 = ''alice'' \<and> n_type n1 = ''warning''
           \<and> n_userId n2 = ''alice'' \<and> n_type n2 = ''warning''"
proof -
  have ty: "it_type tx_dinner = expense" "it_type tx_party = expense"
    and cat: "it_category tx_dinner = Food" "it_category tx_party = Food"
    by (simp_all add: tx_dinner_def tx_party_def)
  have nf1: "\<forall>k<4. \<not> fails env0 (length (trace world0) + k)"
    by (simp add: env0_simps)
  have p1: "evaluated_percentage env0 ''alice'' Food
              (getMonth env0 (now env0 0) + 1) (getFullYear env0 (now env0 1))
              (world0\<lparr>transactions := transactions world0
                 @ [newTransaction env0 ''alice'' tx_dinner world0]\<rparr>) = Some (Fin 85)"
    unfolding current_month0 new_dinner by (rule pct_after_dinner)
  have w1: "after_dinner = snd (post_api_transactions env0 (Some ''alice'') (Some tx_dinner) world0)"
    by (simp add: post_dinner)
  have nf2: "\<forall>k<4. \<not> fails env0 (length (trace after_dinner) + k)"
    by (simp add: env0_simps)
  have p2: "evaluated_percentage env0 ''alice'' Food
              (getMonth env0 (now env0 0) + 1) (getFullYear env0 (now env0 1))
              (after_dinner\<lparr>transactions := transactions after_dinner
                 @ [newTransaction env0 ''alice'' tx_party after_dinner]\<rparr>) = Some (Fin 105)"
    unfolding current_month0 new_party by (rule pct_after_party)
  have ge: "num_ge (Fin 85) (Fin 80)" "num_ge (Fin 105) (Fin 80)"
    by (simp_all add: num_ge_def)
  from C7_alerts_not_idempotent[OF ty(1) ty(2) cat(1) cat(2) nf1 p1 ge(1) w1 nf2 p2 ge(2) refl]
  show ?thesis
    by (simp add: post_dinner)
qed

section \<open>The interval of the monthly trends\<close>

text \<open>
  Claim C8, as stated, fails.  On 2024-03-31 the trends of one month back leave out the
  rent, dated 2024-03-01 in the calendar month then running, because the start of the
  interval is the 31st of February read as the 2nd of March; and on 2024-03-15 the trends
  of one month back have two buckets, February counted from the 15th on only.
\<close>

theorem C8_last_n_months_counterexample:
  "now env_eom 0 = 1711879200000
   \<and> fst (getMonthlyTrends env_eom ''alice'' 1 world_eom)
     = Inr [\<lparr>tr_month = ''2024-03'', tr_income = 0, tr_expenses = 85000\<rparr>]
   \<and> rent \<in> set (transactions world_eom) \<and> t_userId rent = ''alice''
   \<and> t_type rent = expense \<and> t_amount rent = 150000
   \<and> to_char_YYYY_MM (t_date rent) = ''2024-03''
   \<and> fst (getMonthlyTrends env0 ''alice'' 1 world_mixed)
     = Inr [\<lparr>tr_month = ''2024-02'', tr_income = 0, tr_expenses = 12000\<rparr>,
            \<lparr>tr_month = ''2024-03'', tr_income = 500000, tr_expenses = 92500\<rparr>]"
  using trends_eom trends_mixed rent_in_march
  by (simp add: world_eom_def world0_def rent_def env_eom_def env0_def)

text \<open>
  Claim C8, amended.  The trends cover the user's transactions dated from the start
  instant to the current time, where the start instant is what \<^verbatim>\<open>setMonth\<close> makes of the
  current date with the month lowered by \<open>monthsBack\<close>, on whatever day of the month.  The
  buckets are ordered ascending by their key, no key occurs twice, and the keys are exactly
  the months in which the user has a transaction in the interval.  The interval slides
  with the clock and can touch one calendar month more than \<open>monthsBack\<close>, the first and the
  last in part.  When the current local day of the month is at most 28, which every month
  has, and the zone offset in force at the start instant is the one with which its local
  date and time were converted (always so in a zone without clock changes), the start
  instant reads in local time as the same day of the month at the same time of day,
  \<open>monthsBack\<close> months earlier.
\<close>

theorem C8_trends_window:
  assumes "\<not> fails env (length (trace w))"
    and "lt = LocalTime env (now env 1)"
    and "month = getMonth env (now env 0) - months"
    and "setMonth env (now env 1) month = Some s"
    and "window = filter (\<lambda>t. t_userId t = userId \<and> s \<le> t_date t \<and> t_date t \<le> now env 0)
                    (transactions w)"
    and "start = MakeDate (MakeDay (YearFromTime lt) month (DateFromTime lt)) (TimeWithinDay lt)"
  shows "(\<exists>trends. fst (getMonthlyTrends env userId months w) = Inr trends
             \<and> sorted (map tr_month trends) \<and> distinct (map tr_month trends)
             \<and> set (map tr_month trends) = (\<lambda>t. to_char_YYYY_MM (t_date t)) ` set window)
       \<and> s = UTC env start
       \<and> (DateFromTime lt \<le> 28 \<and> localTZA env s True = localTZA env start False \<longrightarrow>
              YearFromTime (LocalTime env s) = YearFromTime lt + month div 12
            \<and> MonthFromTime (LocalTime env s) = month mod 12
            \<and> DateFromTime (LocalTime env s) = DateFromTime lt
            \<and> TimeWithinDay (LocalTime env s) = TimeWithinDay lt)"
proof -
  have sm: "setMonth env (now env 1) (getMonth env (now env 0) - months) = Some s"
    using assms(3,4) by simp
  let ?trends = "monthlyTrends (transactions w) userId s (now env 0)"
  have win: "window = filter (in_range userId s (now env 0)) (transactions w)"
    unfolding assms(5) by (auto simp: in_range_def intro: filter_cong)
  have "fst (getMonthlyTrends env userId months w) = Inr ?trends"
    using assms(1) by (simp add: getMonthlyTrends_eq sm del: One_nat_def)
  moreover have "sorted (map tr_month ?trends)" "distinct (map tr_month ?trends)"
    by (simp_all add: monthlyTrends_keys)
  moreover have "set (map tr_month ?trends) = (\<lambda>t. to_char_YYYY_MM (t_date t)) ` set window"
    unfolding win by (simp add: monthlyTrends_keys)
  ultimately have trends: "\<exists>trends. fst (getMonthlyTrends env userId months w) = Inr trends
             \<and> sorted (map tr_month trends) \<and> distinct (map tr_month trends)
             \<and> set (map tr_month trends) = (\<lambda>t. to_char_YYYY_MM (t_date t)) ` set window"
    by blast
  have "TimeClip (UTC env start) = Some s"
    using assms(4) unfolding setMonth_def Let_def assms(2)[symmetric] assms(6)[symmetric] .
  then have s: "s = UTC env start"
    by (simp add: TimeClip_def split: if_splits)
  have fields: "YearFromTime (LocalTime env s) = YearFromTime lt + month div 12
            \<and> MonthFromTime (LocalTime env s) = month mod 12
            \<and> DateFromTime (LocalTime env s) = DateFromTime lt
            \<and> TimeWithinDay (LocalTime env s) = TimeWithinDay lt"
    if d: "DateFromTime lt \<le> 28" and off: "localTZA env s True = localTZA env start False"
  proof -
    note f = setMonth_fields[OF assms(2) DateFromTime_ge_1 d assms(6)]
    have "LocalTime env s = start"
      using off by (simp add: LocalTime_def s UTC_def)
    with f(2-5) show ?thesis by simp
  qed
  from trends s fields show ?thesis by blast
qed

theorem C8_trends_window_witness:
  "(\<exists>trends. fst (getMonthlyTrends env0 ''alice'' 1 world_mixed) = Inr trends
       \<and> sorted (map tr_month trends) \<and> distinct (map tr_month trends)
       \<and> set (map tr_month trends)
         = (\<lambda>t. to_char_YYYY_MM (t_date t)) ` set [salary, dinner, february, taxi])
   \<and> YearFromTime (LocalTime env0 1707991200000) = 2024
   \<and> MonthFromTime (LocalTime env0 1707991200000) = 1
   \<and> DateFromTime (LocalTime env0 1707991200000) = 15
   \<and> TimeWithinDay (LocalTime env0 1707991200000) = 55800000
   \<and> (\<exists>trends. fst (getMonthlyTrends env_eom ''alice'' 1 world_eom) = Inr trends
       \<and> sorted (map tr_month trends) \<and> distinct (map tr_month trends)
       \<and> set (map tr_month trends) = (\<lambda>t. to_char_YYYY_MM (t_date t)) ` set [dinner])"
proof -
  have nf: "\<not> fails env0 (length (trace world_mixed))"
    by (simp add: env0_simps)
  have lt: "1710516600000 = LocalTime env0 (now env0 1)"
    by (simp add: local_now0)
  have d: "DateFromTime 1710516600000 = 15" by (simp add: date_eval)
  have mo: "1 = getMonth env0 (now env0 0) - 1"
    by (simp add: getMonth_def local_now0 month_now0)
  have t: "TimeWithinDay 1710516600000 = 55800000" by (simp add: date_eval)
  have m: "MakeDay 2024 1 15 = 19768" by (simp add: date_eval)
  have sm: "setMonth env0 (now env0 1) 1 = Some 1707991200000"
    using window_start0 mo by simp
  have st: "1708011000000 = MakeDate (MakeDay (YearFromTime 1710516600000) 1
                (DateFromTime 1710516600000)) (TimeWithinDay 1710516600000)"
    unfolding year_now0 d t m by (simp add: MakeDate_def msPerDay_def)
  have ante: "DateFromTime 1710516600000 \<le> 28
      \<and> localTZA env0 1707991200000 True = localTZA env0 1708011000000 False"
    by (simp add: d env0_simps)
  note th = C8_trends_window[where env = env0 and w = world_mixed and userId = "''alice''"
         and months = 1, OF nf lt mo sm refl st]
  from th ante have a:
    "(\<exists>trends. fst (getMonthlyTrends env0 ''alice'' 1 world_mixed) = Inr trends
       \<and> sorted (map tr_month trends) \<and> distinct (map tr_month trends)
       \<and> set (map tr_month trends)
         = (\<lambda>t. to_char_YYYY_MM (t_date t)) ` set [salary, dinner, february, taxi])
     \<and> YearFromTime (LocalTime env0 1707991200000) = 2024
     \<and> MonthFromTime (LocalTime env0 1707991200000) = 1
     \<and> DateFromTime (LocalTime env0 1707991200000) = 15
     \<and> TimeWithinDay (LocalTime env0 1707991200000) = 55800000"
    unfolding window_mixed_plain year_now0 d t by simp
  have nf': "\<not> fails env_eom (length (trace world_eom))"
    by (simp add: env_eom_def env0_def)
  have mo': "1 = getMonth env_eom (now env_eom 0) - 1"
  proof -
    have "MonthFromTime 1711899000000 = 2" by (simp add: date_eval)
    then show ?thesis
      by (simp add: getMonth_def LocalTime_def env_eom_def env0_def)
  qed
  have sm': "setMonth env_eom (now env_eom 1) 1 = Some 1709373600000"
    using window_start_eom mo' by simp
  have win': "filter (\<lambda>t. t_userId t = ''alice'' \<and> 1709373600000 \<le> t_date t
                  \<and> t_date t \<le> now env_eom 0) (transactions world_eom) = [dinner]"
    by (simp add: world_eom_def world0_def rent_def dinner_def env_eom_def env0_def)
  note th' = C8_trends_window[where env = env_eom and w = world_eom and userId = "''alice''"
         and months = 1, OF nf' refl mo' sm' refl refl]
  from th' have b:
    "\<exists>trends. fst (getMonthlyTrends env_eom ''alice'' 1 world_eom) = Inr trends
       \<and> sorted (map tr_month trends) \<and> distinct (map tr_month trends)
       \<and> set (map tr_month trends) = (\<lambda>t. to_char_YYYY_MM (t_date t)) ` set [dinner]"
    unfolding win' by blast
  from a b show ?thesis by blast
qed

section \<open>Update and delete by id\<close>

text \<open>
  Claim C9, as stated, fails.  Alice updates and deletes the lunch, a transaction of Bob,
  by naming its id: the update answers 200 with the changed row and the delete answers 204,
  not 404, and Bob's row is changed and removed.
\<close>

theorem C9_ownership_counterexample:
  "lunch \<in> set (transactions world_goal) \<and> t_userId lunch = ''bob''
   \<and> fst (put_api_transactions env0 (Some ''alice'') ''t-lunch'' (Some one_cent) world_goal)
     = (200, TransactionJson (lunch\<lparr>t_amount := 1\<rparr>))
   \<and> transactions (snd (put_api_transactions env0 (Some ''alice'') ''t-lunch'' (Some one_cent)
                           world_goal))
     = [lunch\<lparr>t_amount := 1\<rparr>, salary, dinner, february, taxi, snack, early]
   \<and> fst (delete_api_transactions env0 (Some ''alice'') ''t-lunch'' world_goal) = (204, NoBody)
   \<and> transactions (snd (delete_api_transactions env0 (Some ''alice'') ''t-lunch'' world_goal))
     = [salary, dinner, february, taxi, snack, early]"
proof -
  have nf: "\<not> fails env0 (length (trace world_goal))"
    by (simp add: env0_simps)
  have ts: "transactions world_goal = [lunch, salary, dinner, february, taxi, snack, early]"
    by (simp add: world_goal_def world_mixed_def world0_def)
  have ids: "t_id lunch = ''t-lunch''" "t_id salary \<noteq> ''t-lunch''" "t_id dinner \<noteq> ''t-lunch''"
    "t_id february \<noteq> ''t-lunch''" "t_id taxi \<noteq> ''t-lunch''" "t_id snack \<noteq> ''t-lunch''"
    "t_id early \<noteq> ''t-lunch''" "t_userId lunch = ''bob''"
    by (simp_all add: lunch_def salary_def dinner_def february_def taxi_def snack_def early_def)
  have upd: "set_transaction one_cent lunch = lunch\<lparr>t_amount := 1\<rparr>"
    by (simp add: set_transaction_def one_cent_def)
  show ?thesis
    by (simp add: put_api_transactions_eq[OF nf] delete_api_transactions_eq[OF nf] ts ids upd)
qed

text \<open>
  Claim C9, amended.  Every update and delete route of transactions, budgets and goals
  selects its target by id alone and makes no check of ownership: when the storage call
  succeeds, a request of any authenticated caller updates (answer 200 with the new row) or
  deletes (answer 204) every row of that id, whoever owns it, and answers 404 exactly when
  no row has that id.
\<close>

theorem C9_update_delete_by_id_alone:
  assumes "\<not> fails env (length (trace w))"
  shows "put_api_transactions env (Some caller) i (Some pt) w =
           ((case find (\<lambda>t. t_id t = i) (transactions w) of
               None \<Rightarrow> (404, Message ''Transaction not found'')
             | Some t \<Rightarrow> (200, TransactionJson (set_transaction pt t))),
            w\<lparr>trace := trace w @ [UpdateTransaction i pt],
              transactions := map (\<lambda>t. if t_id t = i then set_transaction pt t else t)
                                (transactions w)\<rparr>)
       \<and> delete_api_transactions env (Some caller) i w =
           (if \<exists>t\<in>set (transactions w). t_id t = i then (204, NoBody)
            else (404, Message ''Transaction not found''),
            w\<lparr>trace := trace w @ [DeleteTransaction i],
              transactions := filter (\<lambda>t. t_id t \<noteq> i) (transactions w)\<rparr>)
       \<and> put_api_budgets env (Some caller) i (Some pb) w =
           ((case find (\<lambda>b. b_id b = i) (budgets w) of
               None \<Rightarrow> (404, Message ''Budget not found'')
             | Some b \<Rightarrow> (200, BudgetJson (set_budget pb b))),
            w\<lparr>trace := trace w @ [UpdateBudget i pb],
              budgets := map (\<lambda>b. if b_id b = i then set_budget pb b else b) (budgets w)\<rparr>)
       \<and> delete_api_budgets env (Some caller) i w =
           (if \<exists>b\<in>set (budgets w). b_id b = i then (204, NoBody)
            else (404, Message ''Budget not found''),
            w\<lparr>trace := trace w @ [DeleteBudget i],
              budgets := filter (\<lambda>b. b_id b \<noteq> i) (budgets w)\<rparr>)
       \<and> put_api_goals env (Some caller) i (Some pg) w =
           ((case find (\<lambda>g. g_id g = i) (goals w) of
               None \<Rightarrow> (404, Message ''Goal not found'')
             | Some g \<Rightarrow> (200, GoalJson (set_goal pg g))),
            w\<lparr>trace := trace w @ [UpdateGoal i pg],
              goals := map (\<lambda>g. if g_id g = i then set_goal pg g else g) (goals w)\<rparr>)
       \<and> delete_api_goals env (Some caller) i w =
           (if \<exists>g\<in>set (goals w). g_id g = i then (204, NoBody)
            else (404, Message ''Goal not found''),
            w\<lparr>trace := trace w @ [DeleteGoal i],
              goals := filter (\<lambda>g. g_id g \<noteq> i) (goals w)\<rparr>)"
  using put_api_transactions_eq[OF assms] delete_api_transactions_eq[OF assms]
    put_api_budgets_eq[OF assms] delete_api_budgets_eq[OF assms]
    put_api_goals_eq[OF assms] delete_api_goals_eq[OF assms]
  by blast

theorem C9_update_delete_witness:
  "b_userId food_budget = ''alice''
   \<and> delete_api_budgets env0 (Some ''bob'') ''b-food'' world_goal
     = ((204, NoBody), world_goal\<lparr>trace := [DeleteBudget ''b-food''], budgets := []\<rparr>)
   \<and> g_userId bike = ''bob''
   \<and> put_api_goals env0 (Some ''alice'') ''g-bike'' (Some retitle) world_goal
     = ((200, GoalJson (bike\<lparr>g_title := ''car''\<rparr>)),
        world_goal\<lparr>trace := [UpdateGoal ''g-bike'' retitle],
                    goals := [bike\<lparr>g_title := ''car''\<rparr>]\<rparr>)
   \<and> fst (put_api_transactions env0 (Some ''alice'') ''no-such-row'' (Some one_cent) world_goal)
     = (404, Message ''Transaction not found'')"
proof -
  have nf: "\<not> fails env0 (length (trace world_goal))"
    by (simp add: env0_simps)
  have tabs: "budgets world_goal = [food_budget]" "goals world_goal = [bike]"
    "trace world_goal = []"
    "transactions world_goal = [lunch, salary, dinner, february, taxi, snack, early]"
    by (simp_all add: world_goal_def world_mixed_def world0_def)
  have ids: "b_id food_budget = ''b-food''" "g_id bike = ''g-bike''"
    "b_userId food_budget = ''alice''" "g_userId bike = ''bob''"
    "t_id lunch \<noteq> ''no-such-row''" "t_id salary \<noteq> ''no-such-row''"
    "t_id dinner \<noteq> ''no-such-row''" "t_id february \<noteq> ''no-such-row''"
    "t_id taxi \<noteq> ''no-such-row''" "t_id snack \<noteq> ''no-such-row''"
    "t_id early \<noteq> ''no-such-row''"
    by (simp_all add: food_budget_def bike_def lunch_def salary_def dinner_def february_def
          taxi_def snack_def early_def)
  have upd: "set_goal retitle bike = bike\<lparr>g_title := ''car''\<rparr>"
    by (simp add: set_goal_def retitle_def)
  note th = C9_update_delete_by_id_alone[OF nf]
  from th[of "''bob''" "''b-food''"] have
    d: "delete_api_budgets env0 (Some ''bob'') ''b-food'' world_goal =
           (if \<exists>b\<in>set (budgets world_goal). b_id b = ''b-food'' then (204, NoBody)
            else (404, Message ''Budget not found''),
            world_goal\<lparr>trace := trace world_goal @ [DeleteBudget ''b-food''],
              budgets := filter (\<lambda>b. b_id b \<noteq> ''b-food'') (budgets world_goal)\<rparr>)"
    by blast
  from th[of "''alice''" "''g-bike''" _ _ retitle] have
    g: "put_api_goals env0 (Some ''alice'') ''g-bike'' (Some retitle) world_goal =
           ((case find (\<lambda>g. g_id g = ''g-bike'') (goals world_goal) of
               None \<Rightarrow> (404, Message ''Goal not found'')
             | Some g \<Rightarrow> (200, GoalJson (set_goal retitle g))),
            world_goal\<lparr>trace := trace world_goal @ [UpdateGoal ''g-bike'' retitle],
              goals := map (\<lambda>g. if g_id g = ''g-bike'' then set_goal retitle g else g)
                         (goals world_goal)\<rparr>)"
    by blast
  from th[of "''alice''" "''no-such-row''" one_cent] have
    t: "put_api_transactions env0 (Some ''alice'') ''no-such-row'' (Some one_cent) world_goal =
           ((case find (\<lambda>t. t_id t = ''no-such-row'') (transactions world_goal) of
               None \<Rightarrow> (404, Message ''Transaction not found'')
             | Some t \<Rightarrow> (200, TransactionJson (set_transaction one_cent t))),
            world_goal\<lparr>trace := trace world_goal @ [UpdateTransaction ''no-such-row'' one_cent],
              transactions := map (\<lambda>t. if t_id t = ''no-such-row''
                                          then set_transaction one_cent t else t)
                                (transactions world_goal)\<rparr>)"
    by blast
  show ?thesis
    unfolding d g t by (simp add: tabs ids upd)
qed

section \<open>A budget of zero\<close>

text \<open>
  Claim C10.  With a budget whose amount is zero the division is not guarded:
  \<open>budgetAmount\<close> is \<open>+0\<close>; a positive \<open>totalSpent\<close> makes the percentage \<open>+Infinity\<close>, which is
  at least 100, and a \<open>Budget Exceeded\<close> notification is created; a \<open>totalSpent\<close> of zero
  makes it \<open>NaN\<close>, every comparison is false and nothing is created.  In both cases the
  \<^verbatim>\<open>try\<close> block ends normally and nothing is logged.
\<close>

theorem C10_zero_budget:
  assumes "\<not> fails env (length (trace w))"
    and "\<not> fails env (length (trace w) + 1)"
    and "\<not> fails env (length (trace w) + 2)"
    and "find (budget_matches userId cat month year) (budgets w) = Some budget"
    and "b_amount budget = 0"
    and "newDate env year (month - 1) 1 0 0 0 = Some s"
    and "newDate env year month 0 23 59 59 = Some e"
    and "spent = totalSpent (categoryTransactions cat
                   (transactionsByDateRange (transactions w) userId s e))"
    and "amt = parseFloat (b_amount budget)"
    and "pct = num_mul (num_div spent amt) (Fin 100)"
    and "w' = checkBudgetAlerts env userId cat month year w"
  shows "amt = Fin 0
       \<and> (num_lt (Fin 0) spent \<longrightarrow>
            pct = PosInf \<and> num_ge pct (Fin 100)
            \<and> notifications w' = notifications w @
                 [\<lparr>n_id = gen_random_uuid env (length (trace w) + 2), n_userId = userId,
                   n_title = ''Budget Exceeded - '' @ category_name cat,
                   n_message = ''You'' @ [CHR 0x27] @ ''ve exceeded your '' @ category_name cat
                      @ '' budget by '' @ rupee @ toLocaleString env (num_sub spent amt),
                   n_type = ''warning'', n_isRead = False,
                   n_createdAt = defaultNow env (length (trace w) + 2)\<rparr>])
       \<and> (is_zero spent \<longrightarrow>
            pct = NaN \<and> \<not> num_ge pct (Fin 80) \<and> \<not> num_lt pct (Fin 100)
            \<and> \<not> num_ge pct (Fin 100) \<and> notifications w' = notifications w)
       \<and> fst (checkBudgetAlerts_try env userId cat month year w) = Inr ()
       \<and> console w' = console w"
proof -
  have amt: "amt = Fin 0"
    using assms(5,9) by (simp add: parseFloat_def round64_def)
  have pct: "pct = percentage spent amt"
    using assms(10) by (simp add: percentage_def)
  note found = checkBudgetAlerts_found[OF assms(1-4,6-9) refl]
  note try_found = checkBudgetAlerts_try_found[OF assms(1-4,6-9) refl]
  have pos: "pct = PosInf" if "num_lt (Fin 0) spent"
    using that unfolding assms(10) amt
    by (cases spent) (auto simp: num_div_def num_mul_def signed_inf_def)
  have zero: "pct = NaN" if "is_zero spent"
    using that unfolding assms(10) amt
    by (cases spent) (auto simp: num_div_def num_mul_def)
  have ok: "fst (checkBudgetAlerts_try env userId cat month year w) = Inr ()"
    by (simp add: try_found)
  have con: "console w' = console w"
    unfolding assms(11) by (simp add: checkBudgetAlerts_console ok)
  show ?thesis
  proof (intro conjI impI)
    show "amt = Fin 0" by (rule amt)
  next
    assume p: "num_lt (Fin 0) spent"
    show "pct = PosInf" by (rule pos[OF p])
    show "num_ge pct (Fin 100)" by (simp add: pos[OF p] num_ge_def)
    have "percentage spent amt = PosInf" using pos[OF p] pct by simp
    then show "notifications w' = notifications w @
                 [\<lparr>n_id = gen_random_uuid env (length (trace w) + 2), n_userId = userId,
                   n_title = ''Budget Exceeded - '' @ category_name cat,
                   n_message = ''You'' @ [CHR 0x27] @ ''ve exceeded your '' @ category_name cat
                      @ '' budget by '' @ rupee @ toLocaleString env (num_sub spent amt),
                   n_type = ''warning'', n_isRead = False,
                   n_createdAt = defaultNow env (length (trace w) + 2)\<rparr>]"
      unfolding assms(11)
      by (simp add: found num_ge_def newNotification_def exceeded_notification_def)
  next
    assume z: "is_zero spent"
    show "pct = NaN" by (rule zero[OF z])
    show "\<not> num_ge pct (Fin 80)" by (simp add: zero[OF z] num_ge_def)
    show "\<not> num_lt pct (Fin 100)" by (simp add: zero[OF z])
    show "\<not> num_ge pct (Fin 100)" by (simp add: zero[OF z] num_ge_def)
    have "percentage spent amt = NaN" using zero[OF z] pct by simp
    then show "notifications w' = notifications w"
      unfolding assms(11) by (simp add: found num_ge_def)
  next
    show "fst (checkBudgetAlerts_try env userId cat month year w) = Inr ()" by (rule ok)
  next
    show "console w' = console w" by (rule con)
  qed
qed

theorem C10_zero_budget_witness:
  "notifications (checkBudgetAlerts env0 ''alice'' Food 3 2024 world_zero) =
     [\<lparr>n_id = ''row-2'', n_userId = ''alice'', n_title = ''Budget Exceeded - Food'',
       n_message = ''You'' @ [CHR 0x27] @ ''ve exceeded your Food budget by '' @ rupee @ ''850'',
       n_type = ''warning'', n_isRead = False, n_createdAt = 1710496800000\<rparr>]
   \<and> notifications (checkBudgetAlerts env0 ''alice'' Food 3 2024
                      (world_zero\<lparr>transactions := []\<rparr>)) = []
   \<and> console (checkBudgetAlerts env0 ''alice'' Food 3 2024 world_zero) = []"
proof -
  let ?b = "food_budget\<lparr>b_amount := 0\<rparr>"
  have bud: "find (budget_matches ''alice'' Food 3 2024) (budgets world_zero) = Some ?b"
    "find (budget_matches ''alice'' Food 3 2024) (budgets (world_zero\<lparr>transactions := []\<rparr>))
       = Some ?b"
    by (simp_all add: world_zero_def world_dinner_def world0_def food_budget_def budget_matches_def)
  have z: "b_amount ?b = 0" by simp
  have sp: "Fin 850 = totalSpent (categoryTransactions Food
              (transactionsByDateRange (transactions world_zero) ''alice''
                 1709231400000 1711909799000))"
    by (simp add: world_zero_def world_dinner_def world0_def spent_dinner)
  have sp0: "Fin 0 = totalSpent (categoryTransactions Food
              (transactionsByDateRange (transactions (world_zero\<lparr>transactions := []\<rparr>)) ''alice''
                 1709231400000 1711909799000))"
    by (simp add: transactionsByDateRange_def categoryTransactions_def totalSpent_def)
  have nf: "\<not> fails env0 (length (trace world_zero))"
    "\<not> fails env0 (length (trace world_zero) + 1)"
    "\<not> fails env0 (length (trace world_zero) + 2)"
    "\<not> fails env0 (length (trace (world_zero\<lparr>transactions := []\<rparr>)))"
    "\<not> fails env0 (length (trace (world_zero\<lparr>transactions := []\<rparr>)) + 1)"
    "\<not> fails env0 (length (trace (world_zero\<lparr>transactions := []\<rparr>)) + 2)"
    by (simp_all add: env0_simps)
  have sub: "num_sub (Fin 850) (Fin 0) = Fin 850"
    by (simp add: num_sub_def sums0)
  note a = C10_zero_budget[OF nf(1) nf(2) nf(3) bud(1) z march_2024(1) march_2024(2) sp refl refl refl]
  note b = C10_zero_budget[OF nf(4) nf(5) nf(6) bud(2) z march_2024(1) march_2024(2) sp0 refl refl refl]
  from a have a1: "parseFloat (b_amount ?b) = Fin 0" by blast
  from a a1 have "notifications (checkBudgetAlerts env0 ''alice'' Food 3 2024 world_zero) =
     [\<lparr>n_id = ''row-2'', n_userId = ''alice'', n_title = ''Budget Exceeded - Food'',
       n_message = ''You'' @ [CHR 0x27] @ ''ve exceeded your Food budget by '' @ rupee @ ''850'',
       n_type = ''warning'', n_isRead = False, n_createdAt = 1710496800000\<rparr>]"
    by (simp add: world_zero_def world_dinner_def world0_def env0_simps texts0 sub)
  moreover from b have "notifications (checkBudgetAlerts env0 ''alice'' Food 3 2024
                      (world_zero\<lparr>transactions := []\<rparr>)) = []"
    by (simp add: world_zero_def world_dinner_def world0_def)
  moreover from a have "console (checkBudgetAlerts env0 ''alice'' Food 3 2024 world_zero) = []"
    by (simp add: world_zero_def world_dinner_def world0_def)
  ultimately show ?thesis by blast
qed

end
